theory Spec2Isabelle
  imports Complex_Main "HOL-Library.Sublist" "HOL-Library.Multiset"
begin

section \<open>Environmental Policy Impact Monitor: embedding of app.py\<close>

text \<open>
  The program is a single script \<^verbatim>\<open>app.py\<close>. It harvests policy records from two
  paginated sources (\<^verbatim>\<open>extract_policies_cpd\<close>, \<^verbatim>\<open>extract_environment_policies\<close>),
  reshapes a wide emissions table into a long series and overlays the policies of a year.

  Conventions of the embedding:
  \<^item> a Python exception is a value \<open>Inl e\<close> of a sum type, a normal result is \<open>Inr v\<close>;
  \<^item> a pandas DataFrame is a record of its column labels and its rows; labels are ASCII
    strings (pandas also admits other label types);
  \<^item> a finite float64 value is the rational number it denotes, NaN is \<open>None\<close> or a
    dedicated constructor; the embedding passes such values on and compares them, it
    performs no arithmetic on them (the means and the rounding of lines 161-173 are
    float64 computations and are not part of the embedding);
  \<^item> library and environment calls whose behaviour is not fixed by this repository
    (\<^verbatim>\<open>pd.to_numeric\<close> on text, \<^verbatim>\<open>Series.str.contains\<close>, the order \<^verbatim>\<open>sort_values\<close> gives to
    equal keys, the slider widget, the network) are parameters of the definitions; the
    theorems hold for every value of these parameters;
  \<^item> the two \<^verbatim>\<open>selectbox\<close> widgets are taken to return the inputs \<^verbatim>\<open>country\<close> and
    \<^verbatim>\<open>sector\<close>; the plot is not modelled.
\<close>

subsection \<open>Python exceptions and strings\<close>

datatype error =
  AttributeError | TypeError | KeyError | ValueError | OverflowError | StreamlitAPIException

fun mapE :: "('a \<Rightarrow> error + 'b) \<Rightarrow> 'a list \<Rightarrow> error + 'b list" where
  "mapE f [] = Inr []"
| "mapE f (x # xs) =
     (case f x of
        Inl e \<Rightarrow> Inl e
      | Inr y \<Rightarrow> (case mapE f xs of Inl e \<Rightarrow> Inl e | Inr ys \<Rightarrow> Inr (y # ys)))"

definition digit_char :: "char \<Rightarrow> bool" where
  "digit_char c \<longleftrightarrow> 48 \<le> (of_char c :: nat) \<and> (of_char c :: nat) \<le> 57"

definition isdigit :: "string \<Rightarrow> bool" where
  \<comment> \<open>\<^verbatim>\<open>str.isdigit()\<close> on ASCII text: non-empty and every character in 0..9.\<close>
  "isdigit s \<longleftrightarrow> s \<noteq> [] \<and> list_all digit_char s"

definition digits_to_int :: "string \<Rightarrow> int" where
  \<comment> \<open>\<^verbatim>\<open>int(s)\<close> for a string of decimal digits.\<close>
  "digits_to_int s = foldl (\<lambda>a c. 10 * a + (int (of_char c) - 48)) 0 s"

definition space_char :: "char \<Rightarrow> bool" where
  \<comment> \<open>the ASCII characters that \<^verbatim>\<open>str.strip()\<close> removes\<close>
  "space_char c \<longleftrightarrow> (of_char c :: nat) \<in> {9, 10, 11, 12, 13, 28, 29, 30, 31, 32}"

definition strip :: "string \<Rightarrow> string" where
  "strip s = rev (dropWhile space_char (rev (dropWhile space_char s)))"

definition lower_char :: "char \<Rightarrow> char" where
  "lower_char c =
     (if 65 \<le> (of_char c :: nat) \<and> (of_char c :: nat) \<le> 90
      then char_of ((of_char c :: nat) + 32) else c)"

definition lower :: "string \<Rightarrow> string" where
  "lower s = map lower_char s"

fun starts_with :: "string \<Rightarrow> string \<Rightarrow> bool" where
  "starts_with [] s = True"
| "starts_with (k # ks) [] = False"
| "starts_with (k # ks) (c # cs) = (k = c \<and> starts_with ks cs)"

fun py_in :: "string \<Rightarrow> string \<Rightarrow> bool" where
  \<comment> \<open>\<^verbatim>\<open>k in s\<close> for strings: \<open>k\<close> occurs in \<open>s\<close> as a contiguous substring\<close>
  "py_in k [] = (k = [])"
| "py_in k (c # cs) = (starts_with k (c # cs) \<or> py_in k cs)"

fun digit_string :: "nat \<Rightarrow> string" where
  "digit_string n =
     (if n < 10 then [char_of (48 + n)]
      else digit_string (n div 10) @ [char_of (48 + n mod 10)])"

definition str_int :: "int \<Rightarrow> string" where
  \<comment> \<open>\<^verbatim>\<open>str(i)\<close> for an integer\<close>
  "str_int i = (if i < 0 then CHR ''-'' # digit_string (nat (- i)) else digit_string (nat i))"

subsection \<open>Tables\<close>

text \<open>
  A DataFrame: the column labels in order, and the rows, each a list of cells in column
  order. A row shorter than the label list reads as missing beyond its end, as pandas
  pads short records. Labels are looked up by their first occurrence; the readers of
  pandas (\<^verbatim>\<open>read_csv\<close>, \<^verbatim>\<open>read_html\<close>) produce unique labels.
\<close>

record 'c frame =
  columns :: "string list"
  rows :: "'c list list"

definition empty_frame :: "'c frame" where
  \<comment> \<open>\<^verbatim>\<open>pd.DataFrame()\<close>\<close>
  "empty_frame = \<lparr>columns = [], rows = []\<rparr>"

definition frame_empty :: "'c frame \<Rightarrow> bool" where
  \<comment> \<open>\<^verbatim>\<open>df.empty\<close>: some axis has length 0\<close>
  "frame_empty df \<longleftrightarrow> columns df = [] \<or> rows df = []"

fun index_of :: "'a list \<Rightarrow> 'a \<Rightarrow> nat option" where
  "index_of [] x = None"
| "index_of (y # ys) x = (if y = x then Some 0 else map_option Suc (index_of ys x))"

definition cell_at :: "'c \<Rightarrow> 'c list \<Rightarrow> nat \<Rightarrow> 'c" where
  "cell_at d r i = (if i < length r then r ! i else d)"

definition col_index :: "'c frame \<Rightarrow> string \<Rightarrow> error + nat" where
  \<comment> \<open>position of the column \<^verbatim>\<open>df[name]\<close>; a missing label raises KeyError\<close>
  "col_index df name = (case index_of (columns df) name of None \<Rightarrow> Inl KeyError | Some i \<Rightarrow> Inr i)"

text \<open>Cells of the emissions table and of the normalised policy table.\<close>

datatype cell = Text string | Number rat | Missing

text \<open>
  Cells of a table harvested by \<^verbatim>\<open>pd.read_html\<close>: text, an integer, or NaN. The integer
  constructor keeps the integer so that \<^verbatim>\<open>astype(str)\<close> can be modelled; cells of float
  dtype are not represented.
\<close>

datatype hcell = HStr string | HInt int | HNaN

fun py_str :: "hcell \<Rightarrow> string" where
  \<comment> \<open>\<^verbatim>\<open>astype(str)\<close> on one cell\<close>
  "py_str (HStr s) = s"
| "py_str (HInt i) = str_int i"
| "py_str HNaN = ''nan''"

fun keep :: "hcell \<Rightarrow> cell" where
  \<comment> \<open>a harvested cell that normalisation leaves untouched\<close>
  "keep (HStr s) = Text s"
| "keep (HInt i) = Number (of_int i)"
| "keep HNaN = Missing"

definition num_cell :: "rat option \<Rightarrow> cell" where
  "num_cell v = (case v of None \<Rightarrow> Missing | Some r \<Rightarrow> Number r)"

definition to_numeric_digits :: "string \<Rightarrow> rat option" where
  \<comment> \<open>\<^verbatim>\<open>pd.to_numeric(..., errors="coerce")\<close> on one string, restricted to the inputs used
      in the concrete evaluations below: a string of digits is that number; the other
      strings used there are not numeric literals and become NaN. (pandas also reads
      signs, fractions and exponents; the general definitions take the parser as a
      parameter.)\<close>
  "to_numeric_digits s = (if isdigit s then Some (of_int (digits_to_int s)) else None)"

subsection \<open>The table-scraping adapter and its normaliser: \<^verbatim>\<open>extract_policies_cpd\<close>\<close>

text \<open>
  \<open>read_html offset\<close> stands for \<^verbatim>\<open>pd.read_html(url)[0]\<close> at the URL with that offset:
  \<open>None\<close> when the expression raises, the first table of the page otherwise. The loop
  returns the accumulated pages and the list of offsets requested, in order. The cache
  decorator of the function replays the value of an earlier call and is not modelled.
\<close>

fun cpd_fetch ::
  "(nat \<Rightarrow> hcell frame option) \<Rightarrow> nat list \<Rightarrow> hcell frame list \<Rightarrow> nat list
     \<Rightarrow> hcell frame list \<times> nat list" where
  "cpd_fetch read_html [] all_dfs reqs = (all_dfs, reqs)"
| "cpd_fetch read_html (page # pages) all_dfs reqs =
     (case read_html (page * 50) of
        None \<Rightarrow> (all_dfs, reqs @ [page * 50])
      | Some df \<Rightarrow> cpd_fetch read_html pages (all_dfs @ [df]) (reqs @ [page * 50]))"

definition first_occurrences :: "'a list \<Rightarrow> 'a list" where
  "first_occurrences xs = rev (remdups (rev xs))"

definition concat_frames :: "hcell frame list \<Rightarrow> hcell frame" where
  \<comment> \<open>\<^verbatim>\<open>pd.concat(all_dfs, ignore_index=True)\<close>: the union of the labels in order of first
      appearance; the rows of every page in order, NaN where a page lacks a column\<close>
  "concat_frames dfs =
     (let cols = first_occurrences (concat (map columns dfs))
      in \<lparr>columns = cols,
          rows = concat (map (\<lambda>df. map (\<lambda>r. map (\<lambda>c.
                    (case index_of (columns df) c of
                       None \<Rightarrow> HNaN
                     | Some i \<Rightarrow> cell_at HNaN r i)) cols) (rows df)) dfs)\<rparr>)"

definition year_keywords :: "string list" where
  "year_keywords = [''year'', ''start'', ''date'', ''adopt'']"

definition has_year_keyword :: "string \<Rightarrow> bool" where
  \<comment> \<open>\<^verbatim>\<open>any(k in col.lower() for k in [...])\<close>\<close>
  "has_year_keyword col = list_ex (\<lambda>k. py_in k (lower col)) year_keywords"

fun find_year_col :: "string list \<Rightarrow> string option" where
  \<comment> \<open>the \<^verbatim>\<open>for col in cpd_df.columns\<close> loop with its \<^verbatim>\<open>break\<close>\<close>
  "find_year_col [] = None"
| "find_year_col (col # cols) = (if has_year_keyword col then Some col else find_year_col cols)"

definition rename_col :: "string \<Rightarrow> string \<Rightarrow> string" where
  \<comment> \<open>\<^verbatim>\<open>rename(columns={year_col: "implementation_year", "Policy": "policy_name"})\<close>\<close>
  "rename_col year_col c =
     (if c = year_col then ''implementation_year''
      else if c = ''Policy'' then ''policy_name'' else c)"

definition year_cell :: "(string \<Rightarrow> rat option) \<Rightarrow> hcell \<Rightarrow> cell" where
  \<comment> \<open>\<^verbatim>\<open>pd.to_numeric(x.astype(str).str[:4], errors="coerce")\<close> on one cell\<close>
  "year_cell to_numeric c = num_cell (to_numeric (take 4 (py_str c)))"

definition normalize_cpd :: "(string \<Rightarrow> rat option) \<Rightarrow> hcell frame list \<Rightarrow> error + cell frame" where
  \<comment> \<open>lines 39-63. With a duplicated label, \<^verbatim>\<open>cpd_df[year_col]\<close> is a DataFrame and
      its \<^verbatim>\<open>.str\<close> raises AttributeError.\<close>
  "normalize_cpd to_numeric all_dfs =
     (if all_dfs = [] then Inr empty_frame
      else
        let cpd_df = concat_frames all_dfs;
            cols = map strip (columns cpd_df)
        in (case find_year_col cols of
              None \<Rightarrow> Inr empty_frame
            | Some year_col \<Rightarrow>
                if length (filter (\<lambda>c. c = year_col) cols) > 1 then Inl AttributeError
                else (case index_of cols year_col of
                        None \<Rightarrow> Inl KeyError
                      | Some i \<Rightarrow>
                          Inr \<lparr>columns = map (rename_col year_col) cols,
                               rows = map (\<lambda>r. (map keep r)[i := year_cell to_numeric (cell_at HNaN r i)])
                                          (rows cpd_df)\<rparr>)))"

definition cpd_pages :: "int \<Rightarrow> nat list" where
  \<comment> \<open>\<^verbatim>\<open>range(max_pages)\<close>\<close>
  "cpd_pages max_pages = [0..<nat max_pages]"

definition cpd_all_dfs :: "(nat \<Rightarrow> hcell frame option) \<Rightarrow> int \<Rightarrow> hcell frame list" where
  \<comment> \<open>the list \<^verbatim>\<open>all_dfs\<close> when the loop of lines 31-37 has ended\<close>
  "cpd_all_dfs read_html max_pages = fst (cpd_fetch read_html (cpd_pages max_pages) [] [])"

definition extract_policies_cpd ::
  "(nat \<Rightarrow> hcell frame option) \<Rightarrow> (string \<Rightarrow> rat option) \<Rightarrow> int \<Rightarrow> error + cell frame" where
  "extract_policies_cpd read_html to_numeric max_pages =
     normalize_cpd to_numeric (cpd_all_dfs read_html max_pages)"

definition cpd_requests :: "(nat \<Rightarrow> hcell frame option) \<Rightarrow> int \<Rightarrow> nat list" where
  \<comment> \<open>the offsets requested by one call, in order\<close>
  "cpd_requests read_html max_pages = snd (cpd_fetch read_html (cpd_pages max_pages) [] [])"

subsection \<open>The JSON-API adapter: \<^verbatim>\<open>extract_environment_policies\<close>\<close>

text \<open>
  The value of \<^verbatim>\<open>response.json()\<close>. An object is the list of its key-value pairs; a key
  is looked up by its first binding. Python's \<^verbatim>\<open>None\<close> is \<open>JNull\<close>.
\<close>

datatype json =
  JNull | JBool bool | JNum rat | JStr string | JArr "json list" | JObj "(string \<times> json) list"

fun truthy :: "json \<Rightarrow> bool" where
  "truthy JNull = False"
| "truthy (JBool b) = b"
| "truthy (JNum r) = (r \<noteq> 0)"
| "truthy (JStr s) = (s \<noteq> [])"
| "truthy (JArr xs) = (xs \<noteq> [])"
| "truthy (JObj kvs) = (kvs \<noteq> [])"

fun py_get :: "json \<Rightarrow> string \<Rightarrow> json \<Rightarrow> error + json" where
  \<comment> \<open>\<^verbatim>\<open>x.get(key, default)\<close>: only a dict has the method\<close>
  "py_get (JObj kvs) key dflt = Inr (case map_of kvs key of None \<Rightarrow> dflt | Some v \<Rightarrow> v)"
| "py_get _ key dflt = Inl AttributeError"

fun py_iter :: "json \<Rightarrow> error + json list" where
  \<comment> \<open>the elements a \<^verbatim>\<open>for\<close> loop or comprehension visits\<close>
  "py_iter (JArr xs) = Inr xs"
| "py_iter (JObj kvs) = Inr (map (\<lambda>kv. JStr (fst kv)) kvs)"
| "py_iter (JStr s) = Inr (map (\<lambda>c. JStr [c]) s)"
| "py_iter _ = Inl TypeError"

fun name_of :: "json \<Rightarrow> json list" where
  \<comment> \<open>one step of the comprehension: \<^verbatim>\<open>agency["name"]\<close> if
      \<^verbatim>\<open>isinstance(agency, dict) and "name" in agency\<close>\<close>
  "name_of (JObj kvs) = (case map_of kvs ''name'' of None \<Rightarrow> [] | Some v \<Rightarrow> [v])"
| "name_of _ = []"

definition agency_names_of :: "json list \<Rightarrow> json list" where
  "agency_names_of agencies = concat (map name_of agencies)"

fun py_join :: "string \<Rightarrow> json list \<Rightarrow> error + string" where
  \<comment> \<open>\<^verbatim>\<open>sep.join(xs)\<close>: every element must be a string\<close>
  "py_join sep [] = Inr []"
| "py_join sep [JStr s] = Inr s"
| "py_join sep (JStr s # x # xs) =
     (case py_join sep (x # xs) of Inl e \<Rightarrow> Inl e | Inr t \<Rightarrow> Inr (s @ sep @ t))"
| "py_join sep (x # xs) = Inl TypeError"

record policy_record =
  policy_name :: json
  policy_type :: json
  implementation_year :: int
  agency :: string
  source :: string
  source_url :: json

definition agency_field :: "json \<Rightarrow> error + string" where
  \<comment> \<open>lines 208-212 and 218\<close>
  "agency_field item =
     (case py_get item ''agencies'' (JArr []) of
        Inl e \<Rightarrow> Inl e
      | Inr agencies \<Rightarrow>
          (case py_iter agencies of
             Inl e \<Rightarrow> Inl e
           | Inr entries \<Rightarrow>
               let agency_names = agency_names_of entries
               in if agency_names \<noteq> [] then py_join '', '' agency_names else Inr ''N/A''))"

definition make_record :: "int \<Rightarrow> json \<Rightarrow> error + policy_record" where
  \<comment> \<open>the body of \<^verbatim>\<open>for item in results\<close>\<close>
  "make_record year item =
     (case agency_field item of
        Inl e \<Rightarrow> Inl e
      | Inr a \<Rightarrow>
          (case py_get item ''title'' JNull of
             Inl e \<Rightarrow> Inl e
           | Inr title \<Rightarrow>
               (case py_get item ''type'' JNull of
                  Inl e \<Rightarrow> Inl e
                | Inr ty \<Rightarrow>
                    (case py_get item ''html_url'' JNull of
                       Inl e \<Rightarrow> Inl e
                     | Inr url \<Rightarrow>
                         Inr \<lparr>policy_name = title, policy_type = ty,
                              implementation_year = year, agency = a,
                              source = ''US Federal Register'', source_url = url\<rparr>))))"

text \<open>
  \<open>http_get year page\<close> stands for lines 197-199: \<open>None\<close> when the request, the status
  check or the JSON decoding raises, the decoded body otherwise. One pass of the loop
  body either leaves the loop (\<^verbatim>\<open>break\<close>), raises, or appends the records of the page.
  The loop returns the outcome of the call and the page numbers requested, in order.
\<close>

datatype page_outcome = Break | Raise error | Records "policy_record list"

definition api_page :: "int \<Rightarrow> json option \<Rightarrow> page_outcome" where
  "api_page year response =
     (case response of
        None \<Rightarrow> Break
      | Some data \<Rightarrow>
          (case py_get data ''results'' (JArr []) of
             Inl e \<Rightarrow> Raise e
           | Inr results \<Rightarrow>
               if \<not> truthy results then Break
               else
                 (case py_iter results of
                    Inl e \<Rightarrow> Raise e
                  | Inr items \<Rightarrow>
                      (case mapE (make_record year) items of
                         Inl e \<Rightarrow> Raise e
                       | Inr recs \<Rightarrow> Records recs))))"

fun api_fetch ::
  "(int \<Rightarrow> nat \<Rightarrow> json option) \<Rightarrow> int \<Rightarrow> nat list \<Rightarrow> policy_record list \<Rightarrow> nat list
     \<Rightarrow> (error + policy_record list) \<times> nat list" where
  "api_fetch http_get year [] all_records reqs = (Inr all_records, reqs)"
| "api_fetch http_get year (page # pages) all_records reqs =
     (case api_page year (http_get year page) of
        Break \<Rightarrow> (Inr all_records, reqs @ [page])
      | Raise e \<Rightarrow> (Inl e, reqs @ [page])
      | Records recs \<Rightarrow> api_fetch http_get year pages (all_records @ recs) (reqs @ [page]))"

definition api_pages :: "int \<Rightarrow> nat list" where
  \<comment> \<open>\<^verbatim>\<open>range(1, max_pages + 1)\<close>\<close>
  "api_pages max_pages = [1..<Suc (nat max_pages)]"

definition extract_environment_policies ::
  "(int \<Rightarrow> nat \<Rightarrow> json option) \<Rightarrow> int \<Rightarrow> int \<Rightarrow> error + policy_record list" where
  "extract_environment_policies http_get year max_pages =
     fst (api_fetch http_get year (api_pages max_pages) [] [])"

definition api_requests :: "(int \<Rightarrow> nat \<Rightarrow> json option) \<Rightarrow> int \<Rightarrow> int \<Rightarrow> nat list" where
  "api_requests http_get year max_pages =
     snd (api_fetch http_get year (api_pages max_pages) [] [])"

subsection \<open>Tab 1: controls and reshaping of the emissions table (lines 77-111)\<close>

text \<open>
  \<open>df\<close> is the wide table as it stands after line 76. A row of the long table has the
  five identifier fields, the year and the emissions value; \<^verbatim>\<open>melt\<close> leaves the year as the
  column label and the value as the raw cell, the two casts of lines 107-108 turn them
  into an int64 and a number or NaN.
\<close>

definition year_cols :: "cell frame \<Rightarrow> string list" where
  \<comment> \<open>\<^verbatim>\<open>[c for c in df.columns if c.isdigit()]\<close>\<close>
  "year_cols df = filter isdigit (columns df)"

record ('y, 'e) long_row =
  ISO :: cell
  Country :: cell
  Sector :: cell
  Gas :: cell
  Unit :: cell
  Year :: 'y
  Emissions :: 'e

text \<open>
  The sidebar controls of lines 79-96. Their arguments are evaluated by the script and
  can raise: \<^verbatim>\<open>sorted\<close> compares the distinct cells of a column and raises TypeError when
  text meets a number or NaN; \<^verbatim>\<open>min\<close> and \<^verbatim>\<open>max\<close> of no year label raise ValueError.
  \<open>slider lo hi\<close> stands for the slider call with these bounds: the year it returns, or
  the exception it raises.
\<close>

fun is_text :: "cell \<Rightarrow> bool" where
  "is_text (Text s) = True"
| "is_text _ = False"

definition sortable :: "cell list \<Rightarrow> bool" where
  \<comment> \<open>\<^verbatim>\<open>sorted(xs.unique())\<close> returns\<close>
  "sortable cs \<longleftrightarrow> \<not> (list_ex is_text cs \<and> list_ex (\<lambda>c. \<not> is_text c) cs)"

fun str_less :: "string \<Rightarrow> string \<Rightarrow> bool" where
  \<comment> \<open>\<^verbatim>\<open>a < b\<close> on strings: lexicographic by character code\<close>
  "str_less [] [] = False"
| "str_less [] (y # ys) = True"
| "str_less (x # xs) [] = False"
| "str_less (x # xs) (y # ys) =
     ((of_char x :: nat) < of_char y \<or> (x = y \<and> str_less xs ys))"

definition py_min :: "string \<Rightarrow> string list \<Rightarrow> string" where
  \<comment> \<open>\<^verbatim>\<open>min\<close> of the non-empty list \<open>c # cs\<close>\<close>
  "py_min c cs = foldl (\<lambda>m x. if str_less x m then x else m) c cs"

definition py_max :: "string \<Rightarrow> string list \<Rightarrow> string" where
  \<comment> \<open>\<^verbatim>\<open>max\<close> of the non-empty list \<open>c # cs\<close>\<close>
  "py_max c cs = foldl (\<lambda>m x. if str_less m x then x else m) c cs"

definition tab1_controls :: "(int \<Rightarrow> int \<Rightarrow> error + int) \<Rightarrow> cell frame \<Rightarrow> string \<Rightarrow> error + int" where
  \<comment> \<open>lines 79-96: the value of \<^verbatim>\<open>policy_year\<close>, or the exception raised on the way\<close>
  "tab1_controls slider df country =
     (case col_index df ''Country'' of
        Inl e \<Rightarrow> Inl e
      | Inr i_cty \<Rightarrow>
          if \<not> sortable (map (\<lambda>r. cell_at Missing r i_cty) (rows df)) then Inl TypeError
          else
            (case col_index df ''Sector'' of
               Inl e \<Rightarrow> Inl e
             | Inr i_sec \<Rightarrow>
                 if \<not> sortable (map (\<lambda>r. cell_at Missing r i_sec)
                                   (filter (\<lambda>r. cell_at Missing r i_cty = Text country) (rows df)))
                 then Inl TypeError
                 else
                   (case year_cols df of
                      [] \<Rightarrow> Inl ValueError
                    | c # cs \<Rightarrow> slider (digits_to_int (py_min c cs)) (digits_to_int (py_max c cs)))))"

definition select_country :: "cell frame \<Rightarrow> string \<Rightarrow> error + cell frame" where
  \<comment> \<open>\<^verbatim>\<open>df[df["Country"] == country]\<close>\<close>
  "select_country df country =
     (case col_index df ''Country'' of
        Inl e \<Rightarrow> Inl e
      | Inr i \<Rightarrow> Inr (df\<lparr>rows := filter (\<lambda>r. cell_at Missing r i = Text country) (rows df)\<rparr>))"

definition melt :: "cell frame \<Rightarrow> string list \<Rightarrow> error + (string, cell) long_row list" where
  \<comment> \<open>\<^verbatim>\<open>melt(id_vars=["ISO","Country","Sector","Gas","Unit"], value_vars=..., var_name="Year",
      value_name="Emissions")\<close>: one block of rows per value column, in column order\<close>
  "melt df value_vars =
     (case col_index df ''ISO'' of Inl e \<Rightarrow> Inl e | Inr i_iso \<Rightarrow>
     (case col_index df ''Country'' of Inl e \<Rightarrow> Inl e | Inr i_cty \<Rightarrow>
     (case col_index df ''Sector'' of Inl e \<Rightarrow> Inl e | Inr i_sec \<Rightarrow>
     (case col_index df ''Gas'' of Inl e \<Rightarrow> Inl e | Inr i_gas \<Rightarrow>
     (case col_index df ''Unit'' of Inl e \<Rightarrow> Inl e | Inr i_unit \<Rightarrow>
     (case mapE (col_index df) value_vars of Inl e \<Rightarrow> Inl e | Inr vs \<Rightarrow>
        Inr (concat (map (\<lambda>(y, j). map (\<lambda>r.
               \<lparr>ISO = cell_at Missing r i_iso, Country = cell_at Missing r i_cty,
                Sector = cell_at Missing r i_sec, Gas = cell_at Missing r i_gas,
                Unit = cell_at Missing r i_unit, Year = y, Emissions = cell_at Missing r j\<rparr>)
               (rows df)) (zip value_vars vs)))))))))"

definition py_int :: "string \<Rightarrow> error + int" where
  \<comment> \<open>\<^verbatim>\<open>astype(int)\<close> on one label: the target is int64. Only labels that passed
      \<^verbatim>\<open>isdigit\<close> reach it; on any other text the model raises ValueError.\<close>
  "py_int s =
     (if \<not> isdigit s then Inl ValueError
      else if digits_to_int s < 2 ^ 63 then Inr (digits_to_int s)
      else Inl OverflowError)"

definition to_numeric_cell :: "(string \<Rightarrow> rat option) \<Rightarrow> cell \<Rightarrow> rat option" where
  \<comment> \<open>\<^verbatim>\<open>pd.to_numeric(..., errors="coerce")\<close> on one cell; \<open>to_numeric\<close> reads text\<close>
  "to_numeric_cell to_numeric c =
     (case c of Text s \<Rightarrow> to_numeric s | Number r \<Rightarrow> Some r | Missing \<Rightarrow> None)"

definition cast_row ::
  "(string \<Rightarrow> rat option) \<Rightarrow> (string, cell) long_row \<Rightarrow> error + (int, rat option) long_row" where
  \<comment> \<open>lines 107-108 on one row\<close>
  "cast_row to_numeric r =
     (case py_int (Year r) of
        Inl e \<Rightarrow> Inl e
      | Inr y \<Rightarrow> Inr \<lparr>ISO = ISO r, Country = Country r, Sector = Sector r, Gas = Gas r,
                     Unit = Unit r, Year = y, Emissions = to_numeric_cell to_numeric (Emissions r)\<rparr>)"

definition complete_row :: "(int, rat option) long_row \<Rightarrow> bool" where
  \<comment> \<open>no field of the row is NaN; the integer year cannot be\<close>
  "complete_row r \<longleftrightarrow>
     ISO r \<noteq> Missing \<and> Country r \<noteq> Missing \<and> Sector r \<noteq> Missing \<and> Gas r \<noteq> Missing \<and>
     Unit r \<noteq> Missing \<and> Emissions r \<noteq> None"

definition dropna :: "(int, rat option) long_row list \<Rightarrow> (int, rat option) long_row list" where
  "dropna long_df = filter complete_row long_df"

definition tab1_melted ::
  "(int \<Rightarrow> int \<Rightarrow> error + int) \<Rightarrow> (string \<Rightarrow> rat option) \<Rightarrow> cell frame \<Rightarrow> string
     \<Rightarrow> error + (int, rat option) long_row list" where
  \<comment> \<open>\<^verbatim>\<open>long_df\<close> after line 108\<close>
  "tab1_melted slider to_numeric df country =
     (case tab1_controls slider df country of
        Inl e \<Rightarrow> Inl e
      | Inr policy_year \<Rightarrow>
          (case select_country df country of
             Inl e \<Rightarrow> Inl e
           | Inr country_df \<Rightarrow>
               (case melt country_df (year_cols df) of
                  Inl e \<Rightarrow> Inl e
                | Inr long_df \<Rightarrow> mapE (cast_row to_numeric) long_df)))"

definition tab1_long_df ::
  "(int \<Rightarrow> int \<Rightarrow> error + int) \<Rightarrow> (string \<Rightarrow> rat option) \<Rightarrow> cell frame \<Rightarrow> string
     \<Rightarrow> error + (int, rat option) long_row list" where
  \<comment> \<open>\<^verbatim>\<open>long_df\<close> after line 109\<close>
  "tab1_long_df slider to_numeric df country =
     (case tab1_melted slider to_numeric df country of
        Inl e \<Rightarrow> Inl e
      | Inr long_df \<Rightarrow> Inr (dropna long_df))"

text \<open>
  \<open>sort_values\<close> stands for \<^verbatim>\<open>DataFrame.sort_values("Year")\<close>. Its default algorithm is not
  stable, so the order it gives to rows of the same year is not fixed here; what every
  theorem below uses of it is the contract \<open>sorts_by_year\<close>.
\<close>

definition sorts_by_year ::
  "((int, rat option) long_row list \<Rightarrow> (int, rat option) long_row list) \<Rightarrow> bool" where
  "sorts_by_year sort_values \<longleftrightarrow>
     (\<forall>xs. mset (sort_values xs) = mset xs \<and> sorted (map Year (sort_values xs)))"

definition tab1_plot_df ::
  "((int, rat option) long_row list \<Rightarrow> (int, rat option) long_row list)
     \<Rightarrow> (int \<Rightarrow> int \<Rightarrow> error + int) \<Rightarrow> (string \<Rightarrow> rat option) \<Rightarrow> cell frame \<Rightarrow> string \<Rightarrow> string
     \<Rightarrow> error + (int, rat option) long_row list" where
  \<comment> \<open>line 111\<close>
  "tab1_plot_df sort_values slider to_numeric df country sector =
     (case tab1_long_df slider to_numeric df country of
        Inl e \<Rightarrow> Inl e
      | Inr long_df \<Rightarrow> Inr (sort_values (filter (\<lambda>r. Sector r = Text sector) long_df)))"

subsection \<open>Tab 1: the policy overlay (lines 124-133)\<close>

definition filter_year :: "cell frame \<Rightarrow> int \<Rightarrow> error + cell frame" where
  \<comment> \<open>\<^verbatim>\<open>policy_df[policy_df["implementation_year"] == policy_year]\<close>\<close>
  "filter_year policy_df policy_year =
     (case col_index policy_df ''implementation_year'' of
        Inl e \<Rightarrow> Inl e
      | Inr i \<Rightarrow>
          Inr (policy_df\<lparr>rows := filter (\<lambda>r. cell_at Missing r i = Number (of_int policy_year))
                                        (rows policy_df)\<rparr>))"

definition select_mask :: "'c frame \<Rightarrow> bool list \<Rightarrow> 'c frame" where
  \<comment> \<open>indexing with a boolean Series\<close>
  "select_mask df keep_row = df\<lparr>rows := map fst (filter snd (zip (rows df) keep_row))\<rparr>"

text \<open>
  \<open>str_contains country cells\<close> stands for
  \<^verbatim>\<open>Series.str.contains(country, case=False, na=False)\<close> on the cells of a column: it may
  raise (a column without text, an ill-formed pattern) or yield one truth value per cell.
  The result is \<open>None\<close> when \<^verbatim>\<open>policy_df\<close> is empty, so that \<^verbatim>\<open>policy_year_df\<close> is never bound.
\<close>

definition policy_overlay ::
  "(string \<Rightarrow> cell list \<Rightarrow> error + bool list) \<Rightarrow> cell frame \<Rightarrow> int \<Rightarrow> string
     \<Rightarrow> error + cell frame option" where
  "policy_overlay str_contains policy_df policy_year country =
     (if frame_empty policy_df then Inr None
      else
        (case filter_year policy_df policy_year of
           Inl e \<Rightarrow> Inl e
         | Inr policy_year_df \<Rightarrow>
             (case (if ''Country'' \<in> set (columns policy_year_df)
                    then (case col_index policy_year_df ''Country'' of
                            Inl e \<Rightarrow> Inl e
                          | Inr i \<Rightarrow>
                              (case str_contains country
                                      (map (\<lambda>r. cell_at Missing r i) (rows policy_year_df)) of
                                 Inl e \<Rightarrow> Inl e
                               | Inr keep_row \<Rightarrow> Inr (select_mask policy_year_df keep_row)))
                    else Inr policy_year_df) of
                Inl e \<Rightarrow> Inl e
              | Inr country_df \<Rightarrow> Inr (Some (country_df\<lparr>rows := take 5 (rows country_df)\<rparr>)))))"

definition contains_literal :: "string \<Rightarrow> cell list \<Rightarrow> error + bool list" where
  \<comment> \<open>\<^verbatim>\<open>str.contains\<close> for a pattern without regular-expression operators on a column that
      holds text: case-insensitive containment, false on cells that are no text\<close>
  "contains_literal country cells =
     Inr (map (\<lambda>c. case c of Text s \<Rightarrow> py_in (lower country) (lower s) | _ \<Rightarrow> False) cells)"

subsection \<open>Reference notions and sample inputs for the JSON-API adapter\<close>

text \<open>
  The agency rule in the words of the specification: the entries that are records
  bearing a \<^verbatim>\<open>"name"\<close> key, their names, and the names joined by a separator.
\<close>

definition name_bearing :: "json \<Rightarrow> bool" where
  "name_bearing a = (case a of JObj kvs \<Rightarrow> ''name'' \<in> set (map fst kvs) | _ \<Rightarrow> False)"

definition name_value :: "json \<Rightarrow> json" where
  "name_value a =
     (case a of
        JObj kvs \<Rightarrow> (case map_of kvs ''name'' of Some v \<Rightarrow> v | None \<Rightarrow> JNull)
      | _ \<Rightarrow> JNull)"

fun is_string :: "json \<Rightarrow> bool" where
  "is_string (JStr s) = True"
| "is_string _ = False"

fun string_of :: "json \<Rightarrow> string" where
  "string_of (JStr s) = s"
| "string_of _ = []"

fun join_strings :: "string \<Rightarrow> string list \<Rightarrow> string" where
  "join_strings sep [] = []"
| "join_strings sep [s] = s"
| "join_strings sep (s # t # ts) = s @ sep @ join_strings sep (t # ts)"

fun records_of :: "page_outcome \<Rightarrow> policy_record list" where
  "records_of (Records rs) = rs"
| "records_of _ = []"

text \<open>A registry that answers page 1 with one document and fails on every other page.\<close>

definition sample_api :: "int \<Rightarrow> nat \<Rightarrow> json option" where
  "sample_api year page =
     (if page = 1 then
        Some (JObj [(''results'', JArr [JObj [(''title'', JStr ''Rule''),
                                             (''html_url'', JStr ''https://example.org/d/1'')]])])
      else None)"

definition sample_record :: policy_record where
  "sample_record =
     \<lparr>policy_name = JStr ''Rule'', policy_type = JNull, implementation_year = 2020,
      agency = ''N/A'', source = ''US Federal Register'',
      source_url = JStr ''https://example.org/d/1''\<rparr>"

text \<open>A registry whose every page holds one document with \<^verbatim>\<open>"agencies": null\<close>.\<close>

definition null_agencies_api :: "int \<Rightarrow> nat \<Rightarrow> json option" where
  "null_agencies_api year page =
     Some (JObj [(''results'', JArr [JObj [(''title'', JStr ''Rule''), (''agencies'', JNull)]])])"

text \<open>The item of the specification's scenario: one malformed and one named agency.\<close>

definition epa_item :: json where
  "epa_item = JObj [(''title'', JStr ''Rule''),
                    (''agencies'', JArr [JObj [(''id'', JNum 1)], JObj [(''name'', JStr ''EPA'')]])]"

subsection \<open>Reference notions and sample inputs for the policy normaliser\<close>

text \<open>
  The column rule in the words of the specification: the lower-cased label contains one
  of the four words as a substring.
\<close>

definition mentions_year_word :: "string \<Rightarrow> bool" where
  "mentions_year_word col \<longleftrightarrow>
     (\<exists>k \<in> {''year'', ''start'', ''date'', ''adopt''}. \<exists>p q. lower col = p @ k @ q)"

text \<open>A policy database that serves one table at offset 0 and fails afterwards.\<close>

definition sample_page :: "hcell frame" where
  "sample_page = \<lparr>columns = [''Policy'', ''AdoptionDate'', ''Region''],
                  rows = [[HStr ''Net-Zero Act'', HStr ''2020-05-01'', HStr ''EU'']]\<rparr>"

definition sample_html :: "nat \<Rightarrow> hcell frame option" where
  "sample_html offset = (if offset = 0 then Some sample_page else None)"

text \<open>A page whose year cell is not a number, and a page without any year-like label.\<close>

definition tbd_page :: "hcell frame" where
  "tbd_page = \<lparr>columns = [''Policy'', ''Year''], rows = [[HStr ''Carbon Tax'', HStr ''TBD'']]\<rparr>"

definition tbd_html :: "nat \<Rightarrow> hcell frame option" where
  "tbd_html offset = (if offset = 0 then Some tbd_page else None)"

definition no_year_page :: "hcell frame" where
  "no_year_page =
     \<lparr>columns = [''Policy'', ''Region''], rows = [[HStr ''Net-Zero Act'', HStr ''EU'']]\<rparr>"

definition no_year_html :: "nat \<Rightarrow> hcell frame option" where
  "no_year_html offset = (if offset = 0 then Some no_year_page else None)"

subsection \<open>Reference notions and sample inputs for tab 1\<close>

text \<open>A label composed solely of digits, in the words of the specification.\<close>

definition digits_only :: "string \<Rightarrow> bool" where
  "digits_only c \<longleftrightarrow> c \<noteq> [] \<and> set c \<subseteq> set ''0123456789''"

text \<open>
  The series in the words of the specification. \<open>cell_of df w name\<close> is the cell of the
  table row \<open>w\<close> under a label; \<open>as_number\<close> is the cast to numeric: a number is itself,
  text is what the parser reads, a missing cell is NaN. A table row and a year label
  yield a point of the series if the row belongs to the country and the sector, none of
  its other identifiers is missing and its cell under the label casts to a number. The
  expected series lists these points, year label by year label in column order.
\<close>

definition cell_of :: "cell frame \<Rightarrow> cell list \<Rightarrow> string \<Rightarrow> cell" where
  "cell_of df w name =
     (case index_of (columns df) name of None \<Rightarrow> Missing | Some i \<Rightarrow> cell_at Missing w i)"

definition as_number :: "(string \<Rightarrow> rat option) \<Rightarrow> cell \<Rightarrow> rat option" where
  "as_number to_numeric c =
     (case c of Number v \<Rightarrow> Some v | Text s \<Rightarrow> to_numeric s | Missing \<Rightarrow> None)"

definition series_point ::
  "(string \<Rightarrow> rat option) \<Rightarrow> cell frame \<Rightarrow> string \<Rightarrow> string \<Rightarrow> string \<Rightarrow> cell list
     \<Rightarrow> (int, rat option) long_row option" where
  "series_point to_numeric df country sector y w =
     (if cell_of df w ''Country'' = Text country \<and> cell_of df w ''Sector'' = Text sector \<and>
         cell_of df w ''ISO'' \<noteq> Missing \<and> cell_of df w ''Gas'' \<noteq> Missing \<and>
         cell_of df w ''Unit'' \<noteq> Missing
      then (case as_number to_numeric (cell_of df w y) of
              None \<Rightarrow> None
            | Some v \<Rightarrow>
                Some \<lparr>ISO = cell_of df w ''ISO'', Country = Text country, Sector = Text sector,
                      Gas = cell_of df w ''Gas'', Unit = cell_of df w ''Unit'',
                      Year = digits_to_int y, Emissions = Some v\<rparr>)
      else None)"

definition expected_series ::
  "(string \<Rightarrow> rat option) \<Rightarrow> cell frame \<Rightarrow> string \<Rightarrow> string \<Rightarrow> (int, rat option) long_row list" where
  "expected_series to_numeric df country sector =
     concat (map (\<lambda>y. List.map_filter (series_point to_numeric df country sector y) (rows df))
                 (filter digits_only (columns df)))"

text \<open>
  A wide table with an emissions cell that is no number and a row without ISO code; the
  two points its first row yields, and the long row its second row yields for 2010.
\<close>

definition gappy_wide :: "cell frame" where
  "gappy_wide =
     \<lparr>columns = [''ISO'', ''Country'', ''Sector'', ''Gas'', ''Unit'', ''2010'', ''2011'', ''2012''],
      rows = [[Text ''XXX'', Text ''X'', Text ''Energy'', Text ''CO2'', Text ''Mt'',
               Number 100, Text ''unknown'', Number 90],
              [Missing, Text ''X'', Text ''Energy'', Text ''CH4'', Text ''Mt'',
               Number 5, Number 6, Number 7]]\<rparr>"

definition energy_point :: "int \<Rightarrow> rat \<Rightarrow> (int, rat option) long_row" where
  "energy_point y v =
     \<lparr>ISO = Text ''XXX'', Country = Text ''X'', Sector = Text ''Energy'', Gas = Text ''CO2'',
      Unit = Text ''Mt'', Year = y, Emissions = Some v\<rparr>"

definition gap_row :: "(int, rat option) long_row" where
  "gap_row =
     \<lparr>ISO = Missing, Country = Text ''X'', Sector = Text ''Energy'', Gas = Text ''CH4'',
      Unit = Text ''Mt'', Year = 2010, Emissions = Some 5\<rparr>"

text \<open>A wide table without any year column, and one whose year label exceeds int64.\<close>

definition yearless_wide :: "cell frame" where
  "yearless_wide =
     \<lparr>columns = [''ISO'', ''Country'', ''Sector'', ''Gas'', ''Unit''],
      rows = [[Text ''XXX'', Text ''X'', Text ''Energy'', Text ''CO2'', Text ''Mt'']]\<rparr>"

text \<open>A slider that is left at its default value.\<close>

definition default_slider :: "int \<Rightarrow> int \<Rightarrow> error + int" where
  "default_slider lo hi = Inr 2015"

subsection \<open>Sample inputs for the policy overlay\<close>

text \<open>A normalised policy table without a Country column: six policies of 2015.\<close>

definition overlay_df :: "cell frame" where
  "overlay_df =
     \<lparr>columns = [''policy_name'', ''implementation_year''],
      rows = [[Text ''A'', Number 2015], [Text ''B'', Number 2016], [Text ''C'', Number 2015],
              [Text ''D'', Missing], [Text ''E'', Number 2015], [Text ''F'', Number 2015],
              [Text ''G'', Number 2015], [Text ''H'', Number 2015]]\<rparr>"

text \<open>
  A normalised policy table with a Country column: nine policies of 2015, seven of them
  of a country whose name contains \<^verbatim>\<open>Germany\<close> in some spelling.
\<close>

definition overlay_country_df :: "cell frame" where
  "overlay_country_df =
     \<lparr>columns = [''policy_name'', ''implementation_year'', ''Country''],
      rows = [[Text ''A'', Number 2015, Text ''Germany''],
              [Text ''B'', Number 2016, Text ''Germany''],
              [Text ''C'', Number 2015, Text ''France''],
              [Text ''D'', Number 2015, Text ''GERMANY''],
              [Text ''E'', Number 2015, Missing],
              [Text ''F'', Number 2015, Text ''East Germany''],
              [Text ''G'', Number 2015, Text ''Germany''],
              [Text ''H'', Number 2015, Text ''Germany''],
              [Text ''I'', Number 2015, Text ''germany''],
              [Text ''J'', Number 2015, Text ''Germany'']]\<rparr>"

section \<open>Properties\<close>

subsection \<open>Auxiliary facts\<close>

lemma mapE_Inr: "mapE f xs = Inr ys \<Longrightarrow> y \<in> set ys \<Longrightarrow> \<exists>x \<in> set xs. f x = Inr y"
  by (induction xs arbitrary: ys) (auto split: sum.splits)

lemma upt_split: "k < n \<Longrightarrow> [i..<n] = [i..<k] @ k # [Suc k..<n]" if "i \<le> k" for i k n :: nat
  using that by (metis le_Suc_ex upt_add_eq_append upt_conv_Cons less_imp_le_nat)

subsection \<open>The JSON-API adapter\<close>

lemma name_of_eq: "name_of a = (if name_bearing a then [name_value a] else [])"
  by (cases a)
     (force simp: name_bearing_def name_value_def map_of_eq_None_iff dest: map_of_SomeD
        split: option.splits)+

lemma agency_names_of_filter:
  "agency_names_of ags = map name_value (filter name_bearing ags)"
  by (induction ags) (simp_all add: agency_names_of_def name_of_eq)

lemma py_join_strings:
  "list_all is_string vs \<Longrightarrow> py_join sep vs = Inr (join_strings sep (map string_of vs))"
proof (induction sep vs rule: py_join.induct)
  case (3 sep s x xs)
  then show ?case by (cases x) auto
qed auto

lemma agency_field_list:
  assumes "py_get item ''agencies'' (JArr []) = Inr (JArr agencies)"
    and "list_all (\<lambda>a. is_string (name_value a)) (filter name_bearing agencies)"
  shows "agency_field item =
      Inr (if filter name_bearing agencies = [] then ''N/A''
           else join_strings '', ''
                  (map (\<lambda>a. string_of (name_value a)) (filter name_bearing agencies)))"
proof -
  have "list_all is_string (agency_names_of agencies)"
    using assms(2) by (simp add: agency_names_of_filter list_all_iff)
  then have "py_join '', '' (agency_names_of agencies) =
      Inr (join_strings '', '' (map string_of (agency_names_of agencies)))"
    by (rule py_join_strings)
  then show ?thesis
    using assms(1) by (simp add: agency_field_def agency_names_of_filter comp_def)
qed

text \<open>
  Claim C7, as the code has it. For an item that is a record whose \<^verbatim>\<open>agencies\<close> field is a
  list (or is absent, which reads as the empty list) and whose name-bearing entries carry
  strings as names, the agency field is built from exactly the entries that are records
  with a \<^verbatim>\<open>"name"\<close> key: their names joined by \<^verbatim>\<open>", "\<close>, and \<^verbatim>\<open>"N/A"\<close> when there is no
  such entry. In particular the agencies \<^verbatim>\<open>[{"id":1}, {"name":"EPA"}]\<close> give the agency
  \<^verbatim>\<open>"EPA"\<close>.
\<close>

theorem C7_agency_field:
  "(item = JObj kvs \<and>
    (map_of kvs ''agencies'' = Some (JArr agencies) \<or>
     map_of kvs ''agencies'' = None \<and> agencies = []) \<and>
    list_all (\<lambda>a. is_string (name_value a)) (filter name_bearing agencies)
    \<longrightarrow> agency_field item =
      Inr (if filter name_bearing agencies = [] then ''N/A''
           else join_strings '', ''
                  (map (\<lambda>a. string_of (name_value a)) (filter name_bearing agencies))))
   \<and> agency_field epa_item = Inr ''EPA''"
proof
  show "item = JObj kvs \<and>
    (map_of kvs ''agencies'' = Some (JArr agencies) \<or>
     map_of kvs ''agencies'' = None \<and> agencies = []) \<and>
    list_all (\<lambda>a. is_string (name_value a)) (filter name_bearing agencies)
    \<longrightarrow> agency_field item =
      Inr (if filter name_bearing agencies = [] then ''N/A''
           else join_strings '', ''
                  (map (\<lambda>a. string_of (name_value a)) (filter name_bearing agencies)))"
  proof
    assume a: "item = JObj kvs \<and>
      (map_of kvs ''agencies'' = Some (JArr agencies) \<or>
       map_of kvs ''agencies'' = None \<and> agencies = []) \<and>
      list_all (\<lambda>a. is_string (name_value a)) (filter name_bearing agencies)"
    then have "py_get item ''agencies'' (JArr []) = Inr (JArr agencies)"
      by auto
    with a show "agency_field item =
      Inr (if filter name_bearing agencies = [] then ''N/A''
           else join_strings '', ''
                  (map (\<lambda>a. string_of (name_value a)) (filter name_bearing agencies)))"
      by (simp add: agency_field_list)
  qed
  show "agency_field epa_item = Inr ''EPA''"
    by (simp add: epa_item_def agency_field_def agency_names_of_def)
qed

theorem C7_agency_field_witness:
  "agency_field (JObj [(''agencies'', JArr [JObj [(''name'', JStr ''EPA'')], JNum 7,
                                          JObj [(''name'', JStr ''DOE'')]])])
     = Inr ''EPA, DOE''"
  using C7_agency_field
    [of "JObj [(''agencies'', JArr [JObj [(''name'', JStr ''EPA'')], JNum 7,
                                   JObj [(''name'', JStr ''DOE'')]])]"
        "[(''agencies'', JArr [JObj [(''name'', JStr ''EPA'')], JNum 7,
                              JObj [(''name'', JStr ''DOE'')]])]"
        "[JObj [(''name'', JStr ''EPA'')], JNum 7, JObj [(''name'', JStr ''DOE'')]]"]
  by (simp add: name_bearing_def name_value_def)

theorem C7_non_string_name_counterexample:
  "filter name_bearing [JObj [(''name'', JNull)]] = [JObj [(''name'', JNull)]] \<and>
   agency_field (JObj [(''title'', JStr ''Rule''), (''agencies'', JArr [JObj [(''name'', JNull)]])])
     = Inl TypeError"
  by code_simp

lemma make_record_fields:
  "make_record year item = Inr r \<Longrightarrow>
     implementation_year r = year \<and> source r = ''US Federal Register'' \<and>
     py_get item ''title'' JNull = Inr (policy_name r) \<and>
     py_get item ''type'' JNull = Inr (policy_type r) \<and>
     agency_field item = Inr (agency r) \<and>
     py_get item ''html_url'' JNull = Inr (source_url r)"
  by (auto simp: make_record_def split: sum.splits)

lemma api_page_Records:
  "api_page year response = Records recs \<Longrightarrow> r \<in> set recs \<Longrightarrow>
    \<exists>data results items item. response = Some data \<and>
       py_get data ''results'' (JArr []) = Inr results \<and> py_iter results = Inr items \<and>
       item \<in> set items \<and> make_record year item = Inr r"
  by (auto simp: api_page_def split: option.splits sum.splits if_splits dest: mapE_Inr)

lemma api_page_Break_iff:
  "api_page year response = Break \<longleftrightarrow>
     response = None \<or>
     (\<exists>data results. response = Some data \<and> py_get data ''results'' (JArr []) = Inr results \<and>
        \<not> truthy results)"
  by (auto simp: api_page_def split: option.splits sum.splits)

lemma api_fetch_origin:
  "api_fetch http_get year pages acc reqs = (Inr recs, reqs') \<Longrightarrow> r \<in> set recs \<Longrightarrow>
     r \<in> set acc \<or>
     (\<exists>page \<in> set pages. \<exists>rs. api_page year (http_get year page) = Records rs \<and> r \<in> set rs)"
proof (induction pages arbitrary: acc reqs)
  case Nil
  then show ?case by simp
next
  case (Cons page pages)
  show ?case
  proof (cases "api_page year (http_get year page)")
    case Break
    with Cons.prems show ?thesis by simp
  next
    case (Raise e)
    with Cons.prems show ?thesis by simp
  next
    case (Records rs)
    with Cons.prems
    have "api_fetch http_get year pages (acc @ rs) (reqs @ [page]) = (Inr recs, reqs')"
      by simp
    from Cons.IH[OF this Cons.prems(2)] Records show ?thesis by auto
  qed
qed

lemma sample_api_page1: "api_page 2020 (sample_api 2020 (Suc 0)) = Records [sample_record]"
  by (simp add: sample_api_def api_page_def make_record_def agency_field_def
      agency_names_of_def sample_record_def)

lemma sample_api_run: "extract_environment_policies sample_api 2020 3 = Inr [sample_record]"
  by (simp add: extract_environment_policies_def api_pages_def upt_rec sample_api_page1)
     (simp add: sample_api_def api_page_def)

text \<open>
  Claim C8, as the code has it. Every record that a call for \<open>year\<close> returns was built
  from one result item of a requested page: it carries \<open>implementation_year = year\<close> and
  the source tag \<^verbatim>\<open>"US Federal Register"\<close>, its name, type and agency are those of that
  item, and its \<open>source_url\<close> is the \<^verbatim>\<open>html_url\<close> field of that same item (null when the
  item has none).
\<close>

theorem C8_records_stamped:
  assumes "extract_environment_policies http_get year max_pages = Inr recs" and "r \<in> set recs"
  shows "implementation_year r = year \<and> source r = ''US Federal Register'' \<and>
     (\<exists>page data results items item.
        page \<in> set (api_pages max_pages) \<and> http_get year page = Some data \<and>
        py_get data ''results'' (JArr []) = Inr results \<and> py_iter results = Inr items \<and>
        item \<in> set items \<and>
        py_get item ''title'' JNull = Inr (policy_name r) \<and>
        py_get item ''type'' JNull = Inr (policy_type r) \<and>
        agency_field item = Inr (agency r) \<and>
        py_get item ''html_url'' JNull = Inr (source_url r))"
proof -
  obtain reqs' where "api_fetch http_get year (api_pages max_pages) [] [] = (Inr recs, reqs')"
    using assms(1) unfolding extract_environment_policies_def
    by (cases "api_fetch http_get year (api_pages max_pages) [] []") auto
  from api_fetch_origin[OF this assms(2)]
  obtain page rs where p: "page \<in> set (api_pages max_pages)"
    and rs: "api_page year (http_get year page) = Records rs" "r \<in> set rs"
    by auto
  from api_page_Records[OF rs] obtain data results items item where
    d: "http_get year page = Some data" "py_get data ''results'' (JArr []) = Inr results"
       "py_iter results = Inr items" "item \<in> set items" "make_record year item = Inr r"
    by blast
  from make_record_fields[OF d(5)] p d(1-4) show ?thesis by blast
qed

theorem C8_records_stamped_witness:
  "implementation_year sample_record = 2020 \<and> source sample_record = ''US Federal Register'' \<and>
     (\<exists>page data results items item.
        page \<in> set (api_pages 3) \<and> sample_api 2020 page = Some data \<and>
        py_get data ''results'' (JArr []) = Inr results \<and> py_iter results = Inr items \<and>
        item \<in> set items \<and>
        py_get item ''title'' JNull = Inr (policy_name sample_record) \<and>
        py_get item ''type'' JNull = Inr (policy_type sample_record) \<and>
        agency_field item = Inr (agency sample_record) \<and>
        py_get item ''html_url'' JNull = Inr (source_url sample_record))"
  using C8_records_stamped[of sample_api 2020 3 "[sample_record]" sample_record]
  by (simp add: sample_api_run)

theorem C8_source_tag_counterexample:
  "extract_environment_policies sample_api 2020 3 = Inr [sample_record] \<and>
   source sample_record \<noteq> ''registry''"
  by (simp add: sample_api_run) (simp add: sample_record_def)

text \<open>
  Claim C9 at a response the registry can send: a result item whose \<^verbatim>\<open>agencies\<close> field
  is null. \<^verbatim>\<open>item.get("agencies", [])\<close> returns the null, the comprehension iterates over
  it, and the TypeError leaves the function.
\<close>

theorem C9_null_agencies_raises:
  "extract_environment_policies null_agencies_api 2020 3 = Inl TypeError"
  by (simp add: extract_environment_policies_def api_pages_def upt_rec null_agencies_api_def
      api_page_def make_record_def agency_field_def)

subsection \<open>The policy normaliser\<close>

lemma starts_with_iff: "starts_with k s \<longleftrightarrow> (\<exists>q. s = k @ q)"
  by (induction k s rule: starts_with.induct) auto

lemma py_in_iff: "py_in k s \<longleftrightarrow> (\<exists>p q. s = p @ k @ q)"
proof (induction s)
  case Nil
  then show ?case by auto
next
  case (Cons c cs)
  have "(\<exists>p q. c # cs = p @ k @ q) \<longleftrightarrow> (\<exists>q. c # cs = k @ q) \<or> (\<exists>p q. cs = p @ k @ q)"
  proof
    assume "\<exists>p q. c # cs = p @ k @ q"
    then obtain p q where e: "c # cs = p @ k @ q" by blast
    show "(\<exists>q. c # cs = k @ q) \<or> (\<exists>p q. cs = p @ k @ q)"
    proof (cases p)
      case Nil
      with e show ?thesis by auto
    next
      case (Cons a p')
      with e have "cs = p' @ k @ q" by simp
      then show ?thesis by blast
    qed
  next
    assume "(\<exists>q. c # cs = k @ q) \<or> (\<exists>p q. cs = p @ k @ q)"
    then show "\<exists>p q. c # cs = p @ k @ q"
    proof
      assume "\<exists>q. c # cs = k @ q"
      then obtain q where "c # cs = [] @ k @ q" by auto
      then show ?thesis by blast
    next
      assume "\<exists>p q. cs = p @ k @ q"
      then obtain p q where "c # cs = (c # p) @ k @ q" by auto
      then show ?thesis by blast
    qed
  qed
  with Cons show ?case by (simp add: starts_with_iff)
qed

lemma has_year_keyword_iff:
  "has_year_keyword col \<longleftrightarrow>
     (\<exists>k \<in> {''year'', ''start'', ''date'', ''adopt''}. \<exists>p q. lower col = p @ k @ q)"
  by (simp add: has_year_keyword_def year_keywords_def py_in_iff)

lemma find_year_col_None: "find_year_col cols = None \<longleftrightarrow> (\<forall>c \<in> set cols. \<not> has_year_keyword c)"
  by (induction cols) auto

lemma find_year_col_first:
  "i < length cols \<Longrightarrow> has_year_keyword (cols ! i) \<Longrightarrow> \<forall>j<i. \<not> has_year_keyword (cols ! j) \<Longrightarrow>
   find_year_col cols = Some (cols ! i)"
proof (induction cols arbitrary: i)
  case Nil
  then show ?case by simp
next
  case (Cons c cols)
  show ?case
  proof (cases i)
    case 0
    with Cons.prems show ?thesis by simp
  next
    case (Suc i')
    with Cons.prems have "\<not> has_year_keyword c" by auto
    moreover have "find_year_col cols = Some (cols ! i')"
      using Cons.prems Suc by (intro Cons.IH) auto
    ultimately show ?thesis using Suc by simp
  qed
qed

lemma find_year_col_Some:
  "find_year_col cols = Some c \<Longrightarrow>
   \<exists>i<length cols. cols ! i = c \<and> has_year_keyword c \<and> (\<forall>j<i. \<not> has_year_keyword (cols ! j))"
proof (induction cols)
  case Nil
  then show ?case by simp
next
  case (Cons a cols)
  show ?case
  proof (cases "has_year_keyword a")
    case True
    with Cons.prems have "a = c" by simp
    with True show ?thesis by (intro exI[of _ 0]) simp
  next
    case False
    with Cons.prems have "find_year_col cols = Some c" by simp
    from Cons.IH[OF this] obtain i where i: "i < length cols" "cols ! i = c" "has_year_keyword c"
      "\<forall>j<i. \<not> has_year_keyword (cols ! j)" by blast
    have "\<forall>j<Suc i. \<not> has_year_keyword ((a # cols) ! j)"
      using False i(4) by (auto simp: nth_Cons split: nat.splits)
    with i show ?thesis by (intro exI[of _ "Suc i"]) simp
  qed
qed

lemma index_of_Some: "index_of xs x = Some i \<Longrightarrow> i < length xs \<and> xs ! i = x"
  by (induction xs arbitrary: i) (auto split: if_splits)

lemma index_of_mem: "x \<in> set xs \<Longrightarrow> \<exists>i. index_of xs x = Some i"
  by (induction xs) auto

lemma rows_concat_frames_length:
  "r \<in> set (rows (concat_frames dfs)) \<Longrightarrow> length r = length (columns (concat_frames dfs))"
  by (auto simp: concat_frames_def Let_def)

lemma normalize_cpd_empty:
  "all_dfs = [] \<or> find_year_col (map strip (columns (concat_frames all_dfs))) = None \<Longrightarrow>
   normalize_cpd to_numeric all_dfs = Inr empty_frame"
  by (auto simp: normalize_cpd_def Let_def)

lemma normalize_cpd_rows:
  assumes "all_dfs \<noteq> []"
    and "find_year_col (map strip (columns (concat_frames all_dfs))) = Some year_col"
    and "length (filter (\<lambda>c. c = year_col) (map strip (columns (concat_frames all_dfs)))) \<le> 1"
  shows "\<exists>i res. normalize_cpd to_numeric all_dfs = Inr res \<and>
           i < length (columns res) \<and>
           index_of (map strip (columns (concat_frames all_dfs))) year_col = Some i \<and>
           columns res ! i = ''implementation_year'' \<and>
           length (rows res) = length (rows (concat_frames all_dfs)) \<and>
           (\<forall>n < length (rows res).
              rows res ! n ! i =
                num_cell (to_numeric (take 4 (py_str (rows (concat_frames all_dfs) ! n ! i)))))"
proof -
  define cpd where "cpd = concat_frames all_dfs"
  define cols where "cols = map strip (columns cpd)"
  from assms(2) have "year_col \<in> set cols"
    using find_year_col_Some[of cols year_col] by (auto simp: cols_def cpd_def)
  then obtain i where i: "index_of cols year_col = Some i" using index_of_mem by fastforce
  then have il: "i < length cols" "cols ! i = year_col" using index_of_Some by fastforce+
  define res where "res = \<lparr>columns = map (rename_col year_col) cols,
       rows = map (\<lambda>r. (map keep r)[i := year_cell to_numeric (cell_at HNaN r i)]) (rows cpd)\<rparr>"
  have n: "normalize_cpd to_numeric all_dfs = Inr res"
    using assms i by (simp add: normalize_cpd_def Let_def cols_def[symmetric] cpd_def[symmetric] res_def)
  have c: "columns res ! i = ''implementation_year''"
    using il by (simp add: res_def rename_col_def)
  have rl: "\<forall>n < length (rows cpd). length (rows cpd ! n) = length cols"
    using rows_concat_frames_length[of _ all_dfs] by (simp add: cpd_def cols_def)
  have "\<forall>n < length (rows res). rows res ! n ! i =
                num_cell (to_numeric (take 4 (py_str (rows cpd ! n ! i))))"
    using rl il by (simp add: res_def year_cell_def cell_at_def)
  with n c il i show ?thesis
    unfolding cpd_def[symmetric] cols_def[symmetric]
    by (intro exI[of _ i] exI[of _ res]) (simp add: res_def)
qed

lemma has_year_keyword_eq: "has_year_keyword col = mentions_year_word col"
  by (simp add: has_year_keyword_iff mentions_year_word_def)

lemma index_of_first:
  "i < length xs \<Longrightarrow> \<forall>j<i. xs ! j \<noteq> xs ! i \<Longrightarrow> index_of xs (xs ! i) = Some i"
proof (induction xs arbitrary: i)
  case Nil
  then show ?case by simp
next
  case (Cons x xs)
  show ?case
  proof (cases i)
    case 0
    then show ?thesis by simp
  next
    case (Suc i')
    with Cons.prems have "x \<noteq> xs ! i'" by auto
    moreover have "index_of xs (xs ! i') = Some i'"
      using Cons.prems Suc by (intro Cons.IH) auto
    ultimately show ?thesis using Suc by simp
  qed
qed

text \<open>
  Claim C3. The year column is the first label, in the order of the trimmed labels, whose
  lower-cased text contains one of \<^verbatim>\<open>year\<close>, \<^verbatim>\<open>start\<close>, \<^verbatim>\<open>date\<close>, \<^verbatim>\<open>adopt\<close>; when pages
  were harvested and that label is not duplicated, normalisation returns a table in which
  this column is named \<^verbatim>\<open>implementation_year\<close>. If no label qualifies, the result is the
  empty table. For the one-row table with the labels Policy, AdoptionDate, Region the
  normalised record has \<^verbatim>\<open>implementation_year = 2020\<close> and \<^verbatim>\<open>policy_name = "Net-Zero Act"\<close>.
\<close>

theorem C3_year_column_detection:
  "(cols = map strip (columns (concat_frames all_dfs)) \<longrightarrow>
      (\<forall>i<length cols.
          mentions_year_word (cols ! i) \<and> (\<forall>j<i. \<not> mentions_year_word (cols ! j)) \<longrightarrow>
          find_year_col cols = Some (cols ! i) \<and>
          (all_dfs \<noteq> [] \<and> length (filter (\<lambda>c. c = cols ! i) cols) \<le> 1 \<longrightarrow>
             (\<exists>res. normalize_cpd to_numeric all_dfs = Inr res \<and>
                    columns res ! i = ''implementation_year''))) \<and>
      ((\<forall>c \<in> set cols. \<not> mentions_year_word c) \<longrightarrow>
          find_year_col cols = None \<and> normalize_cpd to_numeric all_dfs = Inr empty_frame)) \<and>
   extract_policies_cpd sample_html to_numeric_digits 60 =
     Inr \<lparr>columns = [''policy_name'', ''implementation_year'', ''Region''],
          rows = [[Text ''Net-Zero Act'', Number 2020, Text ''EU'']]\<rparr>"
proof (intro conjI impI allI)
  fix i
  assume cols: "cols = map strip (columns (concat_frames all_dfs))"
    and i: "i < length cols"
    and q: "mentions_year_word (cols ! i) \<and> (\<forall>j<i. \<not> mentions_year_word (cols ! j))"
  show f: "find_year_col cols = Some (cols ! i)"
    using i q by (intro find_year_col_first) (simp_all add: has_year_keyword_eq)
  assume u: "all_dfs \<noteq> [] \<and> length (filter (\<lambda>c. c = cols ! i) cols) \<le> 1"
  have "\<forall>j<i. cols ! j \<noteq> cols ! i" using q by metis
  with i have ix: "index_of cols (cols ! i) = Some i" by (rule index_of_first)
  from normalize_cpd_rows[of all_dfs "cols ! i" to_numeric] f u cols ix
  show "\<exists>res. normalize_cpd to_numeric all_dfs = Inr res \<and> columns res ! i = ''implementation_year''"
    by auto
next
  assume cols: "cols = map strip (columns (concat_frames all_dfs))"
    and n: "\<forall>c \<in> set cols. \<not> mentions_year_word c"
  then show f: "find_year_col cols = None"
    by (simp add: find_year_col_None has_year_keyword_eq)
  with cols show "normalize_cpd to_numeric all_dfs = Inr empty_frame"
    by (simp add: normalize_cpd_empty)
next
  show "extract_policies_cpd sample_html to_numeric_digits 60 =
     Inr \<lparr>columns = [''policy_name'', ''implementation_year'', ''Region''],
          rows = [[Text ''Net-Zero Act'', Number 2020, Text ''EU'']]\<rparr>"
    by code_simp
qed

theorem C3_year_column_detection_witness:
  "find_year_col [''Policy'', ''AdoptionDate'', ''Region''] = Some ''AdoptionDate'' \<and>
   (\<exists>res. normalize_cpd to_numeric_digits [sample_page] = Inr res \<and>
          columns res ! 1 = ''implementation_year'') \<and>
   normalize_cpd to_numeric_digits [no_year_page] = Inr empty_frame"
proof -
  define L where "L = [''Policy'', ''AdoptionDate'', ''Region'']"
  have c1: "L = map strip (columns (concat_frames [sample_page]))"
    unfolding L_def by code_simp
  have c2: "[''Policy'', ''Region''] = map strip (columns (concat_frames [no_year_page]))"
    by code_simp
  have q1: "mentions_year_word ''AdoptionDate''"
    unfolding has_year_keyword_eq[symmetric] by code_simp
  have q0: "\<not> mentions_year_word ''Policy''" "\<not> mentions_year_word ''Region''"
    unfolding has_year_keyword_eq[symmetric] by code_simp+
  have l: "(1::nat) < length L" and l1: "L ! 1 = ''AdoptionDate''"
    by (simp_all add: L_def)
  have q: "mentions_year_word (L ! 1) \<and> (\<forall>j<1. \<not> mentions_year_word (L ! j))"
    using q1 q0 by (simp add: L_def)
  have u: "[sample_page] \<noteq> [] \<and> length (filter (\<lambda>c. c = L ! 1) L) \<le> 1"
    by (simp add: L_def)
  from C3_year_column_detection[of L "[sample_page]" to_numeric_digits] c1 l q u
  have "find_year_col L = Some (L ! 1) \<and>
      (\<exists>res. normalize_cpd to_numeric_digits [sample_page] = Inr res \<and>
          columns res ! 1 = ''implementation_year'')"
    by blast
  then have p1: "find_year_col [''Policy'', ''AdoptionDate'', ''Region''] = Some ''AdoptionDate'' \<and>
      (\<exists>res. normalize_cpd to_numeric_digits [sample_page] = Inr res \<and>
          columns res ! 1 = ''implementation_year'')"
    unfolding l1 unfolding L_def .
  have "\<forall>c \<in> set [''Policy'', ''Region'']. \<not> mentions_year_word c"
    using q0 by simp
  with C3_year_column_detection[of "[''Policy'', ''Region'']" "[no_year_page]" to_numeric_digits] c2
  have p2: "normalize_cpd to_numeric_digits [no_year_page] = Inr empty_frame"
    by blast
  from p1 p2 show ?thesis by blast
qed

text \<open>
  Claim C2, as the code has it. Normalisation yields the empty table when no page was
  harvested or no year column is detected. Otherwise (the detected label not being
  duplicated) it keeps every row of the concatenated pages, in order, and the
  \<^verbatim>\<open>implementation_year\<close> of a row is the number read from the first four characters of
  the text of its year cell, or null when these do not parse: such rows stay in the result.
\<close>

theorem C2_years_parsed_rows_retained:
  "cols = map strip (columns (concat_frames all_dfs)) \<longrightarrow>
     (all_dfs = [] \<or> find_year_col cols = None \<longrightarrow>
        normalize_cpd to_numeric all_dfs = Inr empty_frame) \<and>
     (all_dfs \<noteq> [] \<and> find_year_col cols = Some year_col \<and>
      length (filter (\<lambda>c. c = year_col) cols) \<le> 1 \<longrightarrow>
        (\<exists>i res. normalize_cpd to_numeric all_dfs = Inr res \<and>
           index_of cols year_col = Some i \<and>
           columns res ! i = ''implementation_year'' \<and>
           length (rows res) = length (rows (concat_frames all_dfs)) \<and>
           (\<forall>n < length (rows res).
              rows res ! n ! i =
                num_cell (to_numeric (take 4 (py_str (rows (concat_frames all_dfs) ! n ! i)))))))"
  using normalize_cpd_empty[of all_dfs to_numeric] normalize_cpd_rows[of all_dfs year_col to_numeric]
  by blast

theorem C2_years_parsed_rows_retained_witness:
  "\<exists>i res. normalize_cpd to_numeric_digits [tbd_page] = Inr res \<and>
           index_of [''Policy'', ''Year''] ''Year'' = Some i \<and>
           columns res ! i = ''implementation_year'' \<and>
           length (rows res) = length (rows (concat_frames [tbd_page])) \<and>
           (\<forall>n < length (rows res).
              rows res ! n ! i =
                num_cell (to_numeric_digits (take 4 (py_str (rows (concat_frames [tbd_page]) ! n ! i)))))"
proof -
  have c: "[''Policy'', ''Year''] = map strip (columns (concat_frames [tbd_page]))"
    by code_simp
  have f: "find_year_col [''Policy'', ''Year''] = Some ''Year''"
    by code_simp
  have u: "length (filter (\<lambda>c. c = ''Year'') [''Policy'', ''Year'']) \<le> 1"
    by simp
  from C2_years_parsed_rows_retained[of "[''Policy'', ''Year'']" "[tbd_page]" to_numeric_digits "''Year''"] c f u
  show ?thesis by simp
qed

theorem C2_null_year_counterexample:
  "extract_policies_cpd tbd_html to_numeric_digits 60 =
         Inr \<lparr>columns = [''policy_name'', ''implementation_year''],
              rows = [[Text ''Carbon Tax'', Missing]]\<rparr> \<and>
   \<not> frame_empty \<lparr>columns = [''policy_name'', ''implementation_year''],
              rows = [[Text ''Carbon Tax'', Missing :: cell]]\<rparr>"
  by code_simp

subsection \<open>Pagination\<close>

lemma cpd_fetch_prefix:
  "\<forall>j \<in> set ps1. read_html (j * 50) \<noteq> None \<Longrightarrow> read_html (k * 50) = None \<Longrightarrow>
   cpd_fetch read_html (ps1 @ k # ps2) acc reqs =
     (acc @ map (\<lambda>j. the (read_html (j * 50))) ps1, reqs @ map (\<lambda>j. j * 50) (ps1 @ [k]))"
  by (induction ps1 arbitrary: acc reqs) auto

lemma api_fetch_prefix:
  "\<forall>j \<in> set ps1. \<exists>rs. api_page year (http_get year j) = Records rs \<Longrightarrow>
   api_page year (http_get year k) = Break \<Longrightarrow>
   api_fetch http_get year (ps1 @ k # ps2) acc reqs =
     (Inr (acc @ concat (map (\<lambda>j. records_of (api_page year (http_get year j))) ps1)),
      reqs @ ps1 @ [k])"
  by (induction ps1 arbitrary: acc reqs) auto

lemma normalize_cpd_explicit:
  assumes "all_dfs \<noteq> []"
    and "cols = map strip (columns (concat_frames all_dfs))"
    and "find_year_col cols = Some year_col"
    and "length (filter (\<lambda>c. c = year_col) cols) \<le> 1"
    and "index_of cols year_col = Some i"
  shows "normalize_cpd to_numeric all_dfs =
     Inr \<lparr>columns = map (\<lambda>c. if c = year_col then ''implementation_year''
                             else if c = ''Policy'' then ''policy_name'' else c) cols,
          rows = map (\<lambda>r. (map keep r)[i := num_cell (to_numeric (take 4 (py_str (r ! i))))])
                     (rows (concat_frames all_dfs))\<rparr>"
proof -
  have il: "i < length cols" using assms(5) index_of_Some by fastforce
  have "\<forall>r \<in> set (rows (concat_frames all_dfs)). cell_at HNaN r i = r ! i"
    using rows_concat_frames_length[of _ all_dfs] il assms(2) by (simp add: cell_at_def)
  then have "map (\<lambda>r. (map keep r)[i := year_cell to_numeric (cell_at HNaN r i)])
                 (rows (concat_frames all_dfs)) =
             map (\<lambda>r. (map keep r)[i := num_cell (to_numeric (take 4 (py_str (r ! i))))])
                 (rows (concat_frames all_dfs))"
    by (intro map_cong) (simp_all add: year_cell_def)
  moreover have "map (rename_col year_col) cols =
      map (\<lambda>c. if c = year_col then ''implementation_year''
                else if c = ''Policy'' then ''policy_name'' else c) cols"
    by (simp add: rename_col_def)
  ultimately show ?thesis
    using assms by (simp add: normalize_cpd_def Let_def)
qed

lemma length_rows_concat_frames:
  "length (rows (concat_frames dfs)) = sum_list (map (\<lambda>p. length (rows p)) dfs)"
  by (simp add: concat_frames_def Let_def length_concat comp_def)

text \<open>
  Claim C5, as the code has it. Table adapter: if the pages before index \<open>k\<close> are read and
  page \<open>k\<close> fails, the loop has accumulated exactly the pages \<open>0..k-1\<close> and has requested
  exactly the offsets of pages \<open>0..k\<close>. The call returns the empty table if \<open>k = 0\<close> or if no
  label of the accumulated pages is year-like; otherwise (the year label not being
  duplicated) it returns one record for every accumulated row, in order: the row with its
  year cell parsed and its labels renamed. JSON adapter: if the pages before \<open>m\<close> yield
  records and page \<open>m\<close> fails or has no result records, the call returns exactly the
  records of pages \<open>1..m-1\<close> and has requested exactly the pages \<open>1..m\<close>; for \<open>m = 1\<close> the
  result is empty.
\<close>

theorem C5_failure_ends_pagination:
  assumes "k < nat max_pages"
    and "\<forall>j<k. read_html (j * 50) \<noteq> None"
    and "read_html (k * 50) = None"
    and "pages = map (\<lambda>j. the (read_html (j * 50))) [0..<k]"
    and "cols = map strip (columns (concat_frames pages))"
    and "1 \<le> m" and "m \<le> nat api_max_pages"
    and "\<forall>j \<in> {1..<m}. \<exists>rs. api_page year (http_get year j) = Records rs"
    and "http_get year m = None \<or>
         (\<exists>data results. http_get year m = Some data \<and>
            py_get data ''results'' (JArr []) = Inr results \<and> \<not> truthy results)"
  shows "cpd_all_dfs read_html max_pages = pages \<and>
         cpd_requests read_html max_pages = map (\<lambda>j. j * 50) [0..<Suc k] \<and>
         (k = 0 \<or> find_year_col cols = None \<longrightarrow>
            extract_policies_cpd read_html to_numeric max_pages = Inr empty_frame) \<and>
         (\<forall>year_col i.
            k \<noteq> 0 \<and> find_year_col cols = Some year_col \<and>
            length (filter (\<lambda>c. c = year_col) cols) \<le> 1 \<and> index_of cols year_col = Some i \<longrightarrow>
            extract_policies_cpd read_html to_numeric max_pages =
              Inr \<lparr>columns = map (\<lambda>c. if c = year_col then ''implementation_year''
                                      else if c = ''Policy'' then ''policy_name'' else c) cols,
                   rows = map (\<lambda>r. (map keep r)[i := num_cell (to_numeric (take 4 (py_str (r ! i))))])
                              (rows (concat_frames pages))\<rparr> \<and>
            length (rows (concat_frames pages)) = sum_list (map (\<lambda>p. length (rows p)) pages)) \<and>
         extract_environment_policies http_get year api_max_pages =
           Inr (concat (map (\<lambda>j. records_of (api_page year (http_get year j))) [1..<m])) \<and>
         api_requests http_get year api_max_pages = [1..<Suc m] \<and>
         (m = 1 \<longrightarrow> extract_environment_policies http_get year api_max_pages = Inr [])"
proof -
  have split1: "cpd_pages max_pages = [0..<k] @ k # [Suc k..<nat max_pages]"
    unfolding cpd_pages_def using assms(1) by (simp add: upt_split)
  have f1: "cpd_fetch read_html (cpd_pages max_pages) [] [] =
      (pages, map (\<lambda>j. j * 50) ([0..<k] @ [k]))"
    unfolding split1 assms(4)
    using cpd_fetch_prefix[of "[0..<k]" read_html k _ "[]" "[]"] assms(2,3)
    by simp
  have a1: "cpd_all_dfs read_html max_pages = pages"
    and a2: "cpd_requests read_html max_pages = map (\<lambda>j. j * 50) [0..<Suc k]"
    using f1 by (simp_all add: cpd_all_dfs_def cpd_requests_def)
  have ex: "extract_policies_cpd read_html to_numeric max_pages = normalize_cpd to_numeric pages"
    by (simp add: extract_policies_cpd_def a1)
  have pe: "pages = [] \<longleftrightarrow> k = 0" by (simp add: assms(4))
  have a3: "k = 0 \<or> find_year_col cols = None \<longrightarrow>
            extract_policies_cpd read_html to_numeric max_pages = Inr empty_frame"
  proof
    assume "k = 0 \<or> find_year_col cols = None"
    then have "pages = [] \<or> find_year_col (map strip (columns (concat_frames pages))) = None"
      using pe assms(5) by auto
    then show "extract_policies_cpd read_html to_numeric max_pages = Inr empty_frame"
      unfolding ex by (rule normalize_cpd_empty)
  qed
  have a4: "extract_policies_cpd read_html to_numeric max_pages =
              Inr \<lparr>columns = map (\<lambda>c. if c = year_col then ''implementation_year''
                                      else if c = ''Policy'' then ''policy_name'' else c) cols,
                   rows = map (\<lambda>r. (map keep r)[i := num_cell (to_numeric (take 4 (py_str (r ! i))))])
                              (rows (concat_frames pages))\<rparr> \<and>
            length (rows (concat_frames pages)) = sum_list (map (\<lambda>p. length (rows p)) pages)"
    if "k \<noteq> 0 \<and> find_year_col cols = Some year_col \<and>
        length (filter (\<lambda>c. c = year_col) cols) \<le> 1 \<and> index_of cols year_col = Some i"
    for year_col i
  proof -
    from that pe have ne: "pages \<noteq> []" by simp
    from normalize_cpd_explicit[OF ne assms(5), of year_col i to_numeric] that
    show ?thesis unfolding ex by (simp add: length_rows_concat_frames)
  qed
  have split2: "api_pages api_max_pages = [1..<m] @ m # [Suc m..<Suc (nat api_max_pages)]"
  proof -
    have "m < Suc (nat api_max_pages)" using assms(7) by simp
    from upt_split[OF assms(6) this] show ?thesis unfolding api_pages_def .
  qed
  have brk: "api_page year (http_get year m) = Break"
    using assms(9) by (simp add: api_page_Break_iff)
  have f2: "api_fetch http_get year (api_pages api_max_pages) [] [] =
      (Inr (concat (map (\<lambda>j. records_of (api_page year (http_get year j))) [1..<m])),
       [1..<m] @ [m])"
    unfolding split2 using api_fetch_prefix[of "[1..<m]" year http_get m _ "[]" "[]"] assms(8) brk
    by simp
  have r2: "[1..<m] @ [m] = [1..<Suc m]" using assms(6) by simp
  have b1: "extract_environment_policies http_get year api_max_pages =
           Inr (concat (map (\<lambda>j. records_of (api_page year (http_get year j))) [1..<m]))"
    and b2: "api_requests http_get year api_max_pages = [1..<Suc m]"
    using f2 r2 by (simp_all add: extract_environment_policies_def api_requests_def)
  have b3: "m = 1 \<longrightarrow> extract_environment_policies http_get year api_max_pages = Inr []"
    using b1 by simp
  from a1 a2 a3 a4 b1 b2 b3 show ?thesis by blast
qed

theorem C5_failure_ends_pagination_witness:
  "cpd_all_dfs sample_html 60 = [sample_page] \<and> cpd_requests sample_html 60 = [0, 50] \<and>
   extract_policies_cpd sample_html to_numeric_digits 60 =
     Inr \<lparr>columns = [''policy_name'', ''implementation_year'', ''Region''],
          rows = [[Text ''Net-Zero Act'', Number 2020, Text ''EU'']]\<rparr> \<and>
   extract_environment_policies sample_api 2020 3 = Inr [sample_record] \<and>
   api_requests sample_api 2020 3 = [1, 2]"
proof -
  have h1: "(1::nat) < nat 60" by simp
  have h2: "\<forall>j<(1::nat). sample_html (j * 50) \<noteq> None" by (simp add: sample_html_def)
  have h3: "sample_html (1 * 50) = None" by (simp add: sample_html_def)
  have e3: "[0..<1] = [0]" by (simp add: upt_rec)
  have hp: "[sample_page] = map (\<lambda>j. the (sample_html (j * 50))) [0..<1]"
    unfolding e3 by (simp add: sample_html_def)
  have hc: "[''Policy'', ''AdoptionDate'', ''Region''] =
      map strip (columns (concat_frames [sample_page]))"
    by code_simp
  have h4: "(1::nat) \<le> 2" and h5: "(2::nat) \<le> nat 3" by simp_all
  have "{1..<2::nat} = {1}" by auto
  then have h6: "\<forall>j \<in> {1..<2::nat}. \<exists>rs. api_page 2020 (sample_api 2020 j) = Records rs"
    by (simp add: sample_api_page1)
  have h7: "sample_api 2020 2 = None \<or>
         (\<exists>data results. sample_api 2020 2 = Some data \<and>
            py_get data ''results'' (JArr []) = Inr results \<and> \<not> truthy results)"
    by (simp add: sample_api_def)
  have e1: "[0..<Suc 1] = [0, 1]" and e2: "[1..<2] = [Suc 0]" and e4: "[1..<Suc 2] = [1, 2]"
    by (simp_all add: upt_rec)
  have y: "(1::nat) \<noteq> 0 \<and>
      find_year_col [''Policy'', ''AdoptionDate'', ''Region''] = Some ''AdoptionDate'' \<and>
      length (filter (\<lambda>c. c = ''AdoptionDate'') [''Policy'', ''AdoptionDate'', ''Region'']) \<le> 1 \<and>
      index_of [''Policy'', ''AdoptionDate'', ''Region''] ''AdoptionDate'' = Some 1"
    by code_simp
  have v: "\<lparr>columns = map (\<lambda>c. if c = ''AdoptionDate'' then ''implementation_year''
                               else if c = ''Policy'' then ''policy_name'' else c)
                          [''Policy'', ''AdoptionDate'', ''Region''],
            rows = map (\<lambda>r. (map keep r)
                         [1 := num_cell (to_numeric_digits (take 4 (py_str (r ! 1))))])
                       (rows (concat_frames [sample_page]))\<rparr> =
           \<lparr>columns = [''policy_name'', ''implementation_year'', ''Region''],
            rows = [[Text ''Net-Zero Act'', Number 2020, Text ''EU'']]\<rparr>"
    by code_simp
  note t = C5_failure_ends_pagination[where k=1 and max_pages=60 and read_html=sample_html
        and pages="[sample_page]" and cols="[''Policy'', ''AdoptionDate'', ''Region'']"
        and m=2 and api_max_pages=3 and year=2020 and http_get=sample_api
        and to_numeric=to_numeric_digits, OF h1 h2 h3 hp hc h4 h5 h6 h7]
  note t1 = t[THEN conjunct1]
  note t2 = t[THEN conjunct2, THEN conjunct1]
  note t4 = t[THEN conjunct2, THEN conjunct2, THEN conjunct2, THEN conjunct1]
  note t5 = t[THEN conjunct2, THEN conjunct2, THEN conjunct2, THEN conjunct2, THEN conjunct1]
  note t6 = t[THEN conjunct2, THEN conjunct2, THEN conjunct2, THEN conjunct2, THEN conjunct2,
              THEN conjunct1]
  from t4[rule_format, OF y, THEN conjunct1]
  have r: "extract_policies_cpd sample_html to_numeric_digits 60 =
     Inr \<lparr>columns = [''policy_name'', ''implementation_year'', ''Region''],
          rows = [[Text ''Net-Zero Act'', Number 2020, Text ''EU'']]\<rparr>"
    unfolding v .
  from t2 have r2: "cpd_requests sample_html 60 = [0, 50]" unfolding e1 by simp
  from t5 have r5: "extract_environment_policies sample_api 2020 3 = Inr [sample_record]"
    unfolding e2 by (simp add: sample_api_page1)
  from t6 have r6: "api_requests sample_api 2020 3 = [1, 2]" unfolding e4 .
  from t1 r2 r r5 r6 show ?thesis by blast
qed

theorem C5_no_year_column_counterexample:
  "cpd_all_dfs no_year_html 60 = [no_year_page] \<and>
   rows no_year_page = [[HStr ''Net-Zero Act'', HStr ''EU'']] \<and>
   extract_policies_cpd no_year_html to_numeric_digits 60 = Inr empty_frame"
  by code_simp

subsection \<open>Tab 1: reshaping\<close>

lemma digit_char_iff: "digit_char c \<longleftrightarrow> c \<in> set ''0123456789''"
proof
  assume "digit_char c"
  then have "48 \<le> (of_char c :: nat) \<and> (of_char c :: nat) \<le> 57"
    unfolding digit_char_def .
  then have "of_char c \<in> {48, 49, 50, 51, 52, 53, 54, 55, 56, 57 :: nat}"
    by (simp only: insert_iff empty_iff) arith
  then have "char_of (of_char c :: nat) \<in> char_of ` {48, 49, 50, 51, 52, 53, 54, 55, 56, 57 :: nat}"
    by (rule imageI)
  then have m: "c \<in> char_of ` {48, 49, 50, 51, 52, 53, 54, 55, 56, 57 :: nat}"
    by (simp only: char_of_char)
  have e: "char_of ` {48, 49, 50, 51, 52, 53, 54, 55, 56, 57 :: nat} = set ''0123456789''"
    by code_simp
  show "c \<in> set ''0123456789''" using m unfolding e .
next
  assume "c \<in> set ''0123456789''"
  then show "digit_char c" by (auto simp: digit_char_def)
qed

lemma isdigit_iff: "isdigit s = digits_only s"
proof -
  have "list_all digit_char s \<longleftrightarrow> set s \<subseteq> set ''0123456789''"
    unfolding list_all_iff digit_char_iff by blast
  then show ?thesis
    unfolding isdigit_def digits_only_def by (rule arg_cong)
qed

lemma year_cols_digits_only: "year_cols df = filter digits_only (columns df)"
proof -
  have "isdigit = digits_only" by (rule ext) (rule isdigit_iff)
  then show ?thesis by (simp add: year_cols_def)
qed

lemma mapE_map: "\<forall>x \<in> set xs. f x = Inr (g x) \<Longrightarrow> mapE f xs = Inr (map g xs)"
  by (induction xs) auto

lemma zip_map_self: "zip xs (map g xs) = map (\<lambda>x. (x, g x)) xs"
  by (induction xs) auto

lemma col_index_the:
  "name \<in> set (columns df) \<Longrightarrow> col_index df name = Inr (the (index_of (columns df) name))"
  using index_of_mem[of name "columns df"] by (auto simp: col_index_def)

lemma cell_of_the:
  "name \<in> set (columns df) \<Longrightarrow>
   cell_at Missing w (the (index_of (columns df) name)) = cell_of df w name"
  using index_of_mem[of name "columns df"] by (auto simp: cell_of_def)

lemma to_numeric_cell_as_number: "to_numeric_cell to_numeric c = as_number to_numeric c"
  by (simp add: to_numeric_cell_def as_number_def split: cell.splits)

lemma melt_explicit:
  assumes "{''ISO'', ''Country'', ''Sector'', ''Gas'', ''Unit''} \<subseteq> set (columns df)"
    and "set value_vars \<subseteq> set (columns df)"
  shows "melt df value_vars =
     Inr (concat (map (\<lambda>y. map (\<lambda>r.
            \<lparr>ISO = cell_of df r ''ISO'', Country = cell_of df r ''Country'',
             Sector = cell_of df r ''Sector'', Gas = cell_of df r ''Gas'',
             Unit = cell_of df r ''Unit'', Year = y, Emissions = cell_of df r y\<rparr>)
            (rows df)) value_vars))"
proof -
  have m: "mapE (col_index df) value_vars = Inr (map (\<lambda>y. the (index_of (columns df) y)) value_vars)"
    using assms(2) by (intro mapE_map) (auto simp: col_index_the)
  have c: "\<And>r y. y \<in> set value_vars \<Longrightarrow>
      cell_at Missing r (the (index_of (columns df) y)) = cell_of df r y"
    using assms(2) by (auto simp: cell_of_the)
  show ?thesis
    using assms(1)
    by (simp add: melt_def col_index_the m zip_map_self cell_of_the comp_def c cong: map_cong)
qed

lemma cast_row_explicit:
  assumes "isdigit (Year r)" and "digits_to_int (Year r) < 2 ^ 63"
  shows "cast_row to_numeric r =
     Inr \<lparr>ISO = ISO r, Country = Country r, Sector = Sector r, Gas = Gas r, Unit = Unit r,
          Year = digits_to_int (Year r), Emissions = as_number to_numeric (Emissions r)\<rparr>"
  using assms by (simp add: cast_row_def py_int_def to_numeric_cell_as_number)

lemma tab1_controls_returns:
  assumes "{''Country'', ''Sector''} \<subseteq> set (columns df)"
    and "sortable (map (\<lambda>w. cell_of df w ''Country'') (rows df))"
    and "sortable (map (\<lambda>w. cell_of df w ''Sector'')
                      (filter (\<lambda>w. cell_of df w ''Country'' = Text country) (rows df)))"
    and "year_cols df = c # cs"
    and "slider (digits_to_int (py_min c cs)) (digits_to_int (py_max c cs)) = Inr policy_year"
  shows "tab1_controls slider df country = Inr policy_year"
  using assms by (simp add: tab1_controls_def col_index_the cell_of_the)

lemma select_country_explicit:
  assumes "''Country'' \<in> set (columns df)"
  shows "select_country df country =
     Inr (df\<lparr>rows := filter (\<lambda>w. cell_of df w ''Country'' = Text country) (rows df)\<rparr>)"
  using assms by (simp add: select_country_def col_index_the cell_of_the)

lemma cell_of_rows_update [simp]: "cell_of (df\<lparr>rows := rs\<rparr>) w name = cell_of df w name"
  by (simp add: cell_of_def)

lemma tab1_melted_explicit:
  assumes ids: "{''ISO'', ''Country'', ''Sector'', ''Gas'', ''Unit''} \<subseteq> set (columns df)"
    and ctl: "tab1_controls slider df country = Inr policy_year"
    and i64: "\<forall>y \<in> set (year_cols df). digits_to_int y < 2 ^ 63"
  shows "tab1_melted slider to_numeric df country =
     Inr (concat (map (\<lambda>y. map (\<lambda>w.
            \<lparr>ISO = cell_of df w ''ISO'', Country = cell_of df w ''Country'',
             Sector = cell_of df w ''Sector'', Gas = cell_of df w ''Gas'',
             Unit = cell_of df w ''Unit'', Year = digits_to_int y,
             Emissions = as_number to_numeric (cell_of df w y)\<rparr>)
            (filter (\<lambda>w. cell_of df w ''Country'' = Text country) (rows df))) (year_cols df)))"
proof -
  define cdf where "cdf = df\<lparr>rows := filter (\<lambda>w. cell_of df w ''Country'' = Text country) (rows df)\<rparr>"
  define mk :: "string \<Rightarrow> cell list \<Rightarrow> (string, cell) long_row" where "mk = (\<lambda>y r.
            \<lparr>ISO = cell_of df r ''ISO'', Country = cell_of df r ''Country'',
             Sector = cell_of df r ''Sector'', Gas = cell_of df r ''Gas'',
             Unit = cell_of df r ''Unit'', Year = y, Emissions = cell_of df r y\<rparr>)"
  define cast :: "(string, cell) long_row \<Rightarrow> (int, rat option) long_row" where "cast = (\<lambda>r.
     \<lparr>ISO = ISO r, Country = Country r, Sector = Sector r, Gas = Gas r, Unit = Unit r,
          Year = digits_to_int (Year r), Emissions = as_number to_numeric (Emissions r)\<rparr>)"
  have sc: "select_country df country = Inr cdf"
    unfolding cdf_def using ids by (intro select_country_explicit) simp
  have "{''ISO'', ''Country'', ''Sector'', ''Gas'', ''Unit''} \<subseteq> set (columns cdf)"
    and "set (year_cols df) \<subseteq> set (columns cdf)"
    using ids by (auto simp: cdf_def year_cols_def)
  from melt_explicit[OF this]
  have m: "melt cdf (year_cols df) = Inr (concat (map (\<lambda>y. map (mk y) (rows cdf)) (year_cols df)))"
    by (simp add: mk_def cdf_def)
  have "\<forall>r \<in> set (concat (map (\<lambda>y. map (mk y) (rows cdf)) (year_cols df))).
          cast_row to_numeric r = Inr (cast r)"
  proof
    fix r assume "r \<in> set (concat (map (\<lambda>y. map (mk y) (rows cdf)) (year_cols df)))"
    then obtain y where y: "y \<in> set (year_cols df)" "Year r = y"
      by (auto simp: mk_def)
    then have "isdigit (Year r)" "digits_to_int (Year r) < 2 ^ 63"
      using i64 by (auto simp: year_cols_def)
    then show "cast_row to_numeric r = Inr (cast r)"
      unfolding cast_def by (rule cast_row_explicit)
  qed
  then have c: "mapE (cast_row to_numeric) (concat (map (\<lambda>y. map (mk y) (rows cdf)) (year_cols df)))
      = Inr (map cast (concat (map (\<lambda>y. map (mk y) (rows cdf)) (year_cols df))))"
    by (rule mapE_map)
  show ?thesis
    by (simp add: tab1_melted_def ctl sc m c map_concat comp_def)
       (simp add: cast_def mk_def cdf_def)
qed

lemma series_point_filter:
  "filter (\<lambda>r. complete_row r \<and> Sector r = Text sector)
     ((map (\<lambda>w.
            \<lparr>ISO = cell_of df w ''ISO'', Country = cell_of df w ''Country'',
             Sector = cell_of df w ''Sector'', Gas = cell_of df w ''Gas'',
             Unit = cell_of df w ''Unit'', Year = digits_to_int y,
             Emissions = as_number to_numeric (cell_of df w y)\<rparr>)
            (filter (\<lambda>w. cell_of df w ''Country'' = Text country) ws)))
   = List.map_filter (series_point to_numeric df country sector y) ws"
  by (induction ws)
     (auto simp: List.map_filter_simps series_point_def complete_row_def split: option.splits)

lemma tab1_plot_df_explicit:
  assumes ids: "{''ISO'', ''Country'', ''Sector'', ''Gas'', ''Unit''} \<subseteq> set (columns df)"
    and ctl: "tab1_controls slider df country = Inr policy_year"
    and i64: "\<forall>y \<in> set (year_cols df). digits_to_int y < 2 ^ 63"
  shows "tab1_plot_df sort_values slider to_numeric df country sector =
     Inr (sort_values (expected_series to_numeric df country sector))"
proof -
  have "filter (\<lambda>r. Sector r = Text sector) (dropna (concat (map (\<lambda>y. map (\<lambda>w.
            \<lparr>ISO = cell_of df w ''ISO'', Country = cell_of df w ''Country'',
             Sector = cell_of df w ''Sector'', Gas = cell_of df w ''Gas'',
             Unit = cell_of df w ''Unit'', Year = digits_to_int y,
             Emissions = as_number to_numeric (cell_of df w y)\<rparr>)
            (filter (\<lambda>w. cell_of df w ''Country'' = Text country) (rows df))) (year_cols df))))
     = expected_series to_numeric df country sector"
    unfolding dropna_def expected_series_def year_cols_digits_only[symmetric]
    by (simp add: filter_concat comp_def series_point_filter)
  then show ?thesis
    by (simp add: tab1_plot_df_def tab1_long_df_def tab1_melted_explicit[OF ids ctl i64])
qed


lemma mapE_Inr_map:
  "(\<And>x y. f x = Inr y \<Longrightarrow> y = g x) \<Longrightarrow> mapE f xs = Inr ys \<Longrightarrow> ys = map g xs"
  by (induction xs arbitrary: ys) (auto split: sum.splits)

lemma mapE_Inr_all: "mapE f xs = Inr ys \<Longrightarrow> \<forall>x \<in> set xs. \<exists>y. f x = Inr y"
  by (induction xs arbitrary: ys) (auto split: sum.splits)

lemma col_index_Inr_mem: "col_index df name = Inr i \<Longrightarrow> name \<in> set (columns df)"
proof -
  assume "col_index df name = Inr i"
  then have "index_of (columns df) name = Some i"
    by (auto simp: col_index_def split: option.splits)
  from index_of_Some[OF this] show ?thesis by (metis nth_mem)
qed

lemma melt_Inr_columns:
  assumes "melt df value_vars = Inr m"
  shows "{''ISO'', ''Country'', ''Sector'', ''Gas'', ''Unit''} \<subseteq> set (columns df) \<and>
         set value_vars \<subseteq> set (columns df)"
proof -
  from assms obtain a b c d e vs where
    "col_index df ''ISO'' = Inr a" "col_index df ''Country'' = Inr b"
    "col_index df ''Sector'' = Inr c" "col_index df ''Gas'' = Inr d"
    "col_index df ''Unit'' = Inr e" and vs: "mapE (col_index df) value_vars = Inr vs"
    by (auto simp: melt_def split: sum.splits)
  then have "{''ISO'', ''Country'', ''Sector'', ''Gas'', ''Unit''} \<subseteq> set (columns df)"
    by (auto dest: col_index_Inr_mem)
  moreover have "set value_vars \<subseteq> set (columns df)"
    using mapE_Inr_all[OF vs] by (auto dest: col_index_Inr_mem)
  ultimately show ?thesis by simp
qed

lemma cast_row_Inr:
  "cast_row to_numeric r = Inr r' \<Longrightarrow>
   r' = \<lparr>ISO = ISO r, Country = Country r, Sector = Sector r, Gas = Gas r, Unit = Unit r,
         Year = digits_to_int (Year r), Emissions = as_number to_numeric (Emissions r)\<rparr>"
  by (auto simp: cast_row_def py_int_def to_numeric_cell_as_number split: if_splits)

lemma select_country_Inr:
  "select_country df country = Inr cdf \<Longrightarrow>
   cdf = df\<lparr>rows := filter (\<lambda>w. cell_of df w ''Country'' = Text country) (rows df)\<rparr>"
proof -
  assume a: "select_country df country = Inr cdf"
  then obtain i where i: "col_index df ''Country'' = Inr i"
    by (auto simp: select_country_def split: sum.splits)
  from col_index_Inr_mem[OF i] have "''Country'' \<in> set (columns df)" .
  from select_country_explicit[OF this, of country] a show ?thesis by simp
qed

lemma tab1_melted_Inr:
  assumes "tab1_melted slider to_numeric df country = Inr m"
  shows "m = concat (map (\<lambda>y. map (\<lambda>w.
            \<lparr>ISO = cell_of df w ''ISO'', Country = cell_of df w ''Country'',
             Sector = cell_of df w ''Sector'', Gas = cell_of df w ''Gas'',
             Unit = cell_of df w ''Unit'', Year = digits_to_int y,
             Emissions = as_number to_numeric (cell_of df w y)\<rparr>)
            (filter (\<lambda>w. cell_of df w ''Country'' = Text country) (rows df))) (year_cols df))"
proof -
  from assms obtain policy_year cdf m0 where
    sc: "select_country df country = Inr cdf"
    and me: "melt cdf (year_cols df) = Inr m0"
    and ca: "mapE (cast_row to_numeric) m0 = Inr m"
    by (auto simp: tab1_melted_def split: sum.splits)
  define cast :: "(string, cell) long_row \<Rightarrow> (int, rat option) long_row" where "cast = (\<lambda>r.
     \<lparr>ISO = ISO r, Country = Country r, Sector = Sector r, Gas = Gas r, Unit = Unit r,
          Year = digits_to_int (Year r), Emissions = as_number to_numeric (Emissions r)\<rparr>)"
  have cdf: "cdf = df\<lparr>rows := filter (\<lambda>w. cell_of df w ''Country'' = Text country) (rows df)\<rparr>"
    using sc by (rule select_country_Inr)
  from melt_Inr_columns[OF me] have cols:
    "{''ISO'', ''Country'', ''Sector'', ''Gas'', ''Unit''} \<subseteq> set (columns cdf)"
    "set (year_cols df) \<subseteq> set (columns cdf)" by simp_all
  from melt_explicit[OF cols] me have m0: "m0 = concat (map (\<lambda>y. map (\<lambda>r.
            \<lparr>ISO = cell_of cdf r ''ISO'', Country = cell_of cdf r ''Country'',
             Sector = cell_of cdf r ''Sector'', Gas = cell_of cdf r ''Gas'',
             Unit = cell_of cdf r ''Unit'', Year = y, Emissions = cell_of cdf r y\<rparr>)
            (rows cdf)) (year_cols df))"
    by simp
  have "m = map cast m0"
    using ca by (rule mapE_Inr_map[rotated]) (auto simp: cast_def dest: cast_row_Inr)
  then show ?thesis
    unfolding m0 by (simp add: cdf cast_def map_concat comp_def)
qed

lemma tab1_plot_df_Inr:
  assumes "tab1_plot_df sort_values slider to_numeric df country sector = Inr plot_df"
  shows "plot_df = sort_values (expected_series to_numeric df country sector)"
proof -
  from assms obtain m where m: "tab1_melted slider to_numeric df country = Inr m"
    and p: "plot_df = sort_values (filter (\<lambda>r. Sector r = Text sector) (dropna m))"
    by (auto simp: tab1_plot_df_def tab1_long_df_def split: sum.splits)
  have "filter (\<lambda>r. Sector r = Text sector) (dropna m) =
      expected_series to_numeric df country sector"
    unfolding tab1_melted_Inr[OF m] dropna_def expected_series_def year_cols_digits_only[symmetric]
    by (simp add: filter_concat comp_def series_point_filter)
  with p show ?thesis by simp
qed

lemma sorts_by_year_sort_key: "sorts_by_year (sort_key Year)"
  by (simp add: sorts_by_year_def sorted_sort_key)

text \<open>
  Claim C4. The year columns are exactly the labels composed solely of digits, in column
  order. For every table with unique labels, whenever the reshaping yields a series (and
  \<^verbatim>\<open>sort_values\<close> sorts by year), the series is sorted by year (non-decreasing) and holds, with multiplicities,
  exactly the expected points: one for each year label and each table row of the country
  and sector whose other identifiers are present and whose cell under the label casts to
  a number, carrying the integer value of the label and that number. A cell that does not
  parse yields no point; none is filled with zero. The reshaping yields a series for every
  table with unique labels, the five identifier columns and at least one year column,
  every year label fitting int64, provided the sidebar controls return (the Country
  cells, and the Sector cells of the country, can be sorted, and the slider returns a
  year).
\<close>

theorem C4_reshape_sorted:
  "year_cols df = filter digits_only (columns df) \<and>
   (distinct (columns df) \<and> sorts_by_year sort_values \<and>
    tab1_plot_df sort_values slider to_numeric df country sector = Inr plot_df \<longrightarrow>
      sorted (map Year plot_df) \<and>
      mset plot_df = mset (expected_series to_numeric df country sector)) \<and>
   (distinct (columns df) \<and>
    {''ISO'', ''Country'', ''Sector'', ''Gas'', ''Unit''} \<subseteq> set (columns df) \<and>
    sortable (map (\<lambda>w. cell_of df w ''Country'') (rows df)) \<and>
    sortable (map (\<lambda>w. cell_of df w ''Sector'')
                 (filter (\<lambda>w. cell_of df w ''Country'' = Text country) (rows df))) \<and>
    year_cols df = c # cs \<and>
    slider (digits_to_int (py_min c cs)) (digits_to_int (py_max c cs)) = Inr policy_year \<and>
    (\<forall>y \<in> set (year_cols df). digits_to_int y < 2 ^ 63) \<longrightarrow>
      (\<exists>series. tab1_plot_df sort_values slider to_numeric df country sector = Inr series))"
proof (intro conjI impI)
  show "year_cols df = filter digits_only (columns df)"
    by (rule year_cols_digits_only)
next
  assume a: "distinct (columns df) \<and> sorts_by_year sort_values \<and>
    tab1_plot_df sort_values slider to_numeric df country sector = Inr plot_df"
  then have "tab1_plot_df sort_values slider to_numeric df country sector = Inr plot_df"
    by simp
  then have p: "plot_df = sort_values (expected_series to_numeric df country sector)"
    by (rule tab1_plot_df_Inr)
  from a show "sorted (map Year plot_df)"
    unfolding p by (simp add: sorts_by_year_def)
  from a show "mset plot_df = mset (expected_series to_numeric df country sector)"
    unfolding p by (simp add: sorts_by_year_def)
next
  assume a: "distinct (columns df) \<and>
    {''ISO'', ''Country'', ''Sector'', ''Gas'', ''Unit''} \<subseteq> set (columns df) \<and>
    sortable (map (\<lambda>w. cell_of df w ''Country'') (rows df)) \<and>
    sortable (map (\<lambda>w. cell_of df w ''Sector'')
                 (filter (\<lambda>w. cell_of df w ''Country'' = Text country) (rows df))) \<and>
    year_cols df = c # cs \<and>
    slider (digits_to_int (py_min c cs)) (digits_to_int (py_max c cs)) = Inr policy_year \<and>
    (\<forall>y \<in> set (year_cols df). digits_to_int y < 2 ^ 63)"
  then have ids: "{''ISO'', ''Country'', ''Sector'', ''Gas'', ''Unit''} \<subseteq> set (columns df)"
    by blast
  then have cs: "{''Country'', ''Sector''} \<subseteq> set (columns df)" by simp
  from a have a3: "sortable (map (\<lambda>w. cell_of df w ''Country'') (rows df))"
    and a4: "sortable (map (\<lambda>w. cell_of df w ''Sector'')
                 (filter (\<lambda>w. cell_of df w ''Country'' = Text country) (rows df)))"
    and a5: "year_cols df = c # cs"
    and a6: "slider (digits_to_int (py_min c cs)) (digits_to_int (py_max c cs)) = Inr policy_year"
    by blast+
  have ctl: "tab1_controls slider df country = Inr policy_year"
    using cs a3 a4 a5 a6 by (rule tab1_controls_returns)
  from a have i64: "\<forall>y \<in> set (year_cols df). digits_to_int y < 2 ^ 63" by blast
  from tab1_plot_df_explicit[OF ids ctl i64]
  show "\<exists>series. tab1_plot_df sort_values slider to_numeric df country sector = Inr series"
    by blast
qed

theorem C4_reshape_sorted_witness:
  "year_cols gappy_wide = [''2010'', ''2011'', ''2012''] \<and>
   (\<exists>series. tab1_plot_df (sort_key Year) default_slider to_numeric_digits gappy_wide
                 ''X'' ''Energy'' = Inr series) \<and>
   sorted (map Year [energy_point 2010 100, energy_point 2012 90]) \<and>
   mset [energy_point 2010 100, energy_point 2012 90] =
     mset (expected_series to_numeric_digits gappy_wide ''X'' ''Energy'') \<and>
   tab1_plot_df (sort_key Year) default_slider to_numeric_digits gappy_wide ''X'' ''Energy'' =
     Inr [energy_point 2010 100, energy_point 2012 90]"
proof -
  have h: "distinct (columns gappy_wide) \<and>
    {''ISO'', ''Country'', ''Sector'', ''Gas'', ''Unit''} \<subseteq> set (columns gappy_wide) \<and>
    sortable (map (\<lambda>w. cell_of gappy_wide w ''Country'') (rows gappy_wide)) \<and>
    sortable (map (\<lambda>w. cell_of gappy_wide w ''Sector'')
                 (filter (\<lambda>w. cell_of gappy_wide w ''Country'' = Text ''X'') (rows gappy_wide))) \<and>
    year_cols gappy_wide = ''2010'' # [''2011'', ''2012''] \<and>
    default_slider (digits_to_int (py_min ''2010'' [''2011'', ''2012'']))
                   (digits_to_int (py_max ''2010'' [''2011'', ''2012''])) = Inr 2015 \<and>
    (\<forall>y \<in> set (year_cols gappy_wide). digits_to_int y < 2 ^ 63)"
    by code_simp
  have d: "filter digits_only (columns gappy_wide) = [''2010'', ''2011'', ''2012'']"
    by code_simp
  have r: "tab1_plot_df (sort_key Year) default_slider to_numeric_digits gappy_wide ''X'' ''Energy'' =
     Inr [energy_point 2010 100, energy_point 2012 90]"
    by code_simp
  note t = C4_reshape_sorted[where df=gappy_wide and country="''X''" and c="''2010''"
      and cs="[''2011'', ''2012'']" and slider=default_slider and policy_year=2015
      and sort_values="sort_key Year" and to_numeric=to_numeric_digits and sector="''Energy''"
      and plot_df="[energy_point 2010 100, energy_point 2012 90]"]
  from t[THEN conjunct1] have c1: "year_cols gappy_wide = [''2010'', ''2011'', ''2012'']"
    unfolding d .
  have dc: "distinct (columns gappy_wide)" by (simp add: gappy_wide_def)
  from t[THEN conjunct2, THEN conjunct1] dc sorts_by_year_sort_key r
  have c2: "sorted (map Year [energy_point 2010 100, energy_point 2012 90]) \<and>
      mset [energy_point 2010 100, energy_point 2012 90] =
        mset (expected_series to_numeric_digits gappy_wide ''X'' ''Energy'')"
    by blast
  from t[THEN conjunct2, THEN conjunct2] h
  have c3: "\<exists>series. tab1_plot_df (sort_key Year) default_slider to_numeric_digits gappy_wide
                 ''X'' ''Energy'' = Inr series"
    by blast
  from c1 c2 c3 r show ?thesis by blast
qed

text \<open>
  Claim C10. For a table with unique labels: whenever lines 98-108 have produced the long
  table \<open>m\<close>, line 109 keeps, in
  order, exactly the rows of \<open>m\<close> none of whose fields is missing: a row with a missing
  ISO, Country, Sector, Gas or Unit is removed from the long table, and so from the
  plotted series, also when its emissions value is a number. (The year is an integer and
  cannot be missing.)
\<close>

theorem C10_dropna_every_field:
  assumes "distinct (columns df)"
    and "tab1_melted slider to_numeric df country = Inr m"
    and "sorts_by_year sort_values"
  shows "\<exists>long_df plot_df.
           tab1_long_df slider to_numeric df country = Inr long_df \<and>
           tab1_plot_df sort_values slider to_numeric df country sector = Inr plot_df \<and>
           long_df = filter (\<lambda>r. ISO r \<noteq> Missing \<and> Country r \<noteq> Missing \<and> Sector r \<noteq> Missing \<and>
                                 Gas r \<noteq> Missing \<and> Unit r \<noteq> Missing \<and> Emissions r \<noteq> None) m \<and>
           (\<forall>r. r \<in> set long_df \<longleftrightarrow>
                 r \<in> set m \<and> ISO r \<noteq> Missing \<and> Country r \<noteq> Missing \<and> Sector r \<noteq> Missing \<and>
                 Gas r \<noteq> Missing \<and> Unit r \<noteq> Missing \<and> Emissions r \<noteq> None) \<and>
           (\<forall>r \<in> set m.
                 ISO r = Missing \<or> Country r = Missing \<or> Sector r = Missing \<or>
                 Gas r = Missing \<or> Unit r = Missing \<or> Emissions r = None
                 \<longrightarrow> r \<notin> set long_df \<and> r \<notin> set plot_df)"
proof -
  define keep_fields where "keep_fields = (\<lambda>r :: (int, rat option) long_row.
      ISO r \<noteq> Missing \<and> Country r \<noteq> Missing \<and> Sector r \<noteq> Missing \<and>
      Gas r \<noteq> Missing \<and> Unit r \<noteq> Missing \<and> Emissions r \<noteq> None)"
  have k: "complete_row = keep_fields"
    by (rule ext) (simp add: complete_row_def keep_fields_def)
  have l: "tab1_long_df slider to_numeric df country = Inr (filter keep_fields m)"
    by (simp add: tab1_long_df_def assms(2) dropna_def k)
  have p: "tab1_plot_df sort_values slider to_numeric df country sector =
      Inr (sort_values (filter (\<lambda>r. Sector r = Text sector) (filter keep_fields m)))"
    by (simp add: tab1_plot_df_def l)
  have s: "set (sort_values (filter (\<lambda>r. Sector r = Text sector) (filter keep_fields m))) =
      set (filter (\<lambda>r. Sector r = Text sector) (filter keep_fields m))"
    using assms(3) unfolding sorts_by_year_def by (metis set_mset_mset)
  have a: "\<forall>r. r \<in> set (filter keep_fields m) \<longleftrightarrow>
                 r \<in> set m \<and> ISO r \<noteq> Missing \<and> Country r \<noteq> Missing \<and> Sector r \<noteq> Missing \<and>
                 Gas r \<noteq> Missing \<and> Unit r \<noteq> Missing \<and> Emissions r \<noteq> None"
    by (auto simp: keep_fields_def)
  have b: "\<forall>r \<in> set m.
                 ISO r = Missing \<or> Country r = Missing \<or> Sector r = Missing \<or>
                 Gas r = Missing \<or> Unit r = Missing \<or> Emissions r = None
                 \<longrightarrow> r \<notin> set (filter keep_fields m) \<and>
                     r \<notin> set (sort_values (filter (\<lambda>r. Sector r = Text sector) (filter keep_fields m)))"
    unfolding s by (auto simp: keep_fields_def)
  from l p a b show ?thesis unfolding keep_fields_def by blast
qed

theorem C10_dropna_every_field_witness:
  "\<exists>m plot_df. tab1_melted default_slider to_numeric_digits gappy_wide ''X'' = Inr m \<and>
      tab1_plot_df (sort_key Year) default_slider to_numeric_digits gappy_wide ''X'' ''Energy''
        = Inr plot_df \<and>
      gap_row \<in> set m \<and> Emissions gap_row = Some 5 \<and> ISO gap_row = Missing \<and>
      gap_row \<notin> set plot_df"
proof -
  have "case tab1_melted default_slider to_numeric_digits gappy_wide ''X'' of
          Inl e \<Rightarrow> False | Inr m \<Rightarrow> gap_row \<in> set m"
    by code_simp
  then obtain m where m: "tab1_melted default_slider to_numeric_digits gappy_wide ''X'' = Inr m"
    and g: "gap_row \<in> set m"
    by (cases "tab1_melted default_slider to_numeric_digits gappy_wide ''X''") auto
  have dc: "distinct (columns gappy_wide)" by (simp add: gappy_wide_def)
  from C10_dropna_every_field[where sector="''Energy''", OF dc m sorts_by_year_sort_key]
  obtain long_df plot_df where
    p: "tab1_plot_df (sort_key Year) default_slider to_numeric_digits gappy_wide ''X'' ''Energy''
          = Inr plot_df"
    and d: "\<forall>r \<in> set m.
                 ISO r = Missing \<or> Country r = Missing \<or> Sector r = Missing \<or>
                 Gas r = Missing \<or> Unit r = Missing \<or> Emissions r = None
                 \<longrightarrow> r \<notin> set long_df \<and> r \<notin> set plot_df"
    by blast
  have f: "Emissions gap_row = Some 5" "ISO gap_row = Missing"
    by (simp_all add: gap_row_def)
  from d g f(2) have "gap_row \<notin> set plot_df" by blast
  with m p g f show ?thesis by blast
qed

subsection \<open>Tab 1: the policy overlay\<close>

lemma filter_year_Inr:
  "index_of (columns policy_df) ''implementation_year'' = Some i \<Longrightarrow>
   filter_year policy_df y =
     Inr (policy_df\<lparr>rows := filter (\<lambda>r. cell_at Missing r i = Number (of_int y)) (rows policy_df)\<rparr>)"
  by (simp add: filter_year_def col_index_def)

lemma filter_year_idem:
  "filter_year policy_df y = Inr ydf \<Longrightarrow> filter_year ydf y = Inr ydf"
  by (auto simp: filter_year_def col_index_def split: sum.splits option.splits)

lemma subseq_select: "subseq (map fst (filter snd (zip xs ms))) xs"
proof (induction xs arbitrary: ms)
  case Nil
  then show ?case by simp
next
  case (Cons x xs)
  show ?case
  proof (cases ms)
    case Nil
    then show ?thesis by simp
  next
    case (Cons b bs)
    with Cons.IH[of bs] show ?thesis by (cases b) auto
  qed
qed

lemma policy_overlay_no_country:
  assumes "\<not> frame_empty policy_df" and "filter_year policy_df y = Inr ydf"
    and "''Country'' \<notin> set (columns ydf)"
  shows "policy_overlay str_contains policy_df y country =
     Inr (Some (ydf\<lparr>rows := take 5 (rows ydf)\<rparr>))"
  using assms by (simp add: policy_overlay_def)

lemma policy_overlay_country:
  assumes "\<not> frame_empty policy_df" and "filter_year policy_df y = Inr ydf"
    and "index_of (columns ydf) ''Country'' = Some j"
    and "str_contains country (map (\<lambda>r. cell_at Missing r j) (rows ydf)) = Inr keep_row"
  shows "policy_overlay str_contains policy_df y country =
     Inr (Some (ydf\<lparr>rows := take 5 (map fst (filter snd (zip (rows ydf) keep_row)))\<rparr>))"
proof -
  from index_of_Some[OF assms(3)] have "''Country'' \<in> set (columns ydf)"
    by (metis nth_mem)
  with assms show ?thesis
    by (simp add: policy_overlay_def col_index_def select_mask_def)
qed

lemma policy_overlay_shown:
  assumes "filter_year policy_df y = Inr ydf"
    and "policy_overlay str_contains policy_df y country = Inr (Some shown)"
  shows "\<exists>matched. subseq matched (rows ydf) \<and> rows shown = take 5 matched"
proof (cases "''Country'' \<in> set (columns ydf)")
  case False
  with assms have "shown = ydf\<lparr>rows := take 5 (rows ydf)\<rparr>"
    by (auto simp: policy_overlay_def split: if_splits)
  then show ?thesis by (intro exI[of _ "rows ydf"]) simp
next
  case True
  with assms obtain j keep_row where
    "str_contains country (map (\<lambda>r. cell_at Missing r j) (rows ydf)) = Inr keep_row"
    and "shown = (select_mask ydf keep_row)\<lparr>rows := take 5 (rows (select_mask ydf keep_row))\<rparr>"
    by (auto simp: policy_overlay_def split: if_splits sum.splits)
  then show ?thesis using subseq_select[of "rows ydf" keep_row]
    by (intro exI[of _ "rows (select_mask ydf keep_row)"]) (simp add: select_mask_def)
qed

text \<open>
  Claim C6. Take a normalised policy table with unique labels whose \<^verbatim>\<open>implementation_year\<close>
  column is at position \<open>i\<close>, and let \<open>ydf\<close> be that table restricted, in table order, to
  the records whose \<^verbatim>\<open>implementation_year\<close> equals the policy year. The year filter returns
  \<open>ydf\<close>, and filtering \<open>ydf\<close> again by the same year returns \<open>ydf\<close>. For a non-empty table
  the displayed table is \<open>ydf\<close> cut to its first 5 records if there is no Country
  column; if there is one and the country test yields the truth values \<open>keep_row\<close>, it is
  the first 5 of the records of \<open>ydf\<close> that pass the test. Whenever a displayed table is
  bound it has at most 5 records, each with that \<^verbatim>\<open>implementation_year\<close>.
\<close>

theorem C6_matched_policies:
  assumes "distinct (columns policy_df)"
    and "index_of (columns policy_df) ''implementation_year'' = Some i"
    and "ydf = policy_df\<lparr>rows := filter (\<lambda>r. cell_at Missing r i = Number (of_int y))
                                        (rows policy_df)\<rparr>"
  shows "filter_year policy_df y = Inr ydf \<and>
         filter_year ydf y = Inr ydf \<and>
         (\<not> frame_empty policy_df \<and> ''Country'' \<notin> set (columns policy_df) \<longrightarrow>
            policy_overlay str_contains policy_df y country =
              Inr (Some (policy_df\<lparr>rows := take 5 (rows ydf)\<rparr>))) \<and>
         (\<forall>j keep_row.
            \<not> frame_empty policy_df \<and> index_of (columns policy_df) ''Country'' = Some j \<and>
            str_contains country (map (\<lambda>r. cell_at Missing r j) (rows ydf)) = Inr keep_row \<longrightarrow>
            policy_overlay str_contains policy_df y country =
              Inr (Some (policy_df\<lparr>rows :=
                           take 5 (map fst (filter snd (zip (rows ydf) keep_row)))\<rparr>))) \<and>
         (\<forall>shown. policy_overlay str_contains policy_df y country = Inr (Some shown) \<longrightarrow>
            length (rows shown) \<le> 5 \<and>
            (\<exists>matched. subseq matched (rows ydf) \<and> rows shown = take 5 matched) \<and>
            (\<forall>r \<in> set (rows shown). cell_at Missing r i = Number (of_int y)))"
proof -
  have f: "filter_year policy_df y = Inr ydf"
    unfolding assms(3) using assms(2) by (rule filter_year_Inr)
  have c: "columns ydf = columns policy_df" by (simp add: assms(3))
  have rw: "rows ydf = filter (\<lambda>r. cell_at Missing r i = Number (of_int y)) (rows policy_df)"
    by (simp add: assms(3))
  have u: "\<And>rs. ydf\<lparr>rows := rs\<rparr> = policy_df\<lparr>rows := rs\<rparr>" by (simp add: assms(3))
  have id: "filter_year ydf y = Inr ydf" using f by (rule filter_year_idem)
  have nc: "policy_overlay str_contains policy_df y country =
              Inr (Some (policy_df\<lparr>rows := take 5 (rows ydf)\<rparr>))"
    if "\<not> frame_empty policy_df \<and> ''Country'' \<notin> set (columns policy_df)"
    using that policy_overlay_no_country[OF _ f, of str_contains country] c u by simp
  have wc: "policy_overlay str_contains policy_df y country =
              Inr (Some (policy_df\<lparr>rows :=
                           take 5 (map fst (filter snd (zip (rows ydf) keep_row)))\<rparr>))"
    if "\<not> frame_empty policy_df \<and> index_of (columns policy_df) ''Country'' = Some j \<and>
        str_contains country (map (\<lambda>r. cell_at Missing r j) (rows ydf)) = Inr keep_row"
    for j keep_row
    using that policy_overlay_country[OF _ f, of j str_contains country keep_row] c u by simp
  have sh: "length (rows shown) \<le> 5 \<and>
               (\<exists>matched. subseq matched (rows ydf) \<and> rows shown = take 5 matched) \<and>
               (\<forall>r \<in> set (rows shown). cell_at Missing r i = Number (of_int y))"
    if "policy_overlay str_contains policy_df y country = Inr (Some shown)" for shown
  proof -
    from policy_overlay_shown[OF f that] obtain matched where
      ma: "subseq matched (rows ydf)" "rows shown = take 5 matched" by blast
    have "set (rows shown) \<subseteq> set matched" unfolding ma(2) by (rule set_take_subset)
    also have "\<dots> \<subseteq> set (rows ydf)" using ma(1) by (auto dest: list_emb_set)
    finally have "\<forall>r \<in> set (rows shown). cell_at Missing r i = Number (of_int y)"
      unfolding rw by auto
    with ma show ?thesis by auto
  qed
  from f id nc wc sh show ?thesis by blast
qed

theorem C6_matched_policies_witness:
  "policy_overlay contains_literal overlay_df 2015 ''Germany'' =
     Inr (Some \<lparr>columns = [''policy_name'', ''implementation_year''],
                rows = [[Text ''A'', Number 2015], [Text ''C'', Number 2015],
                        [Text ''E'', Number 2015], [Text ''F'', Number 2015],
                        [Text ''G'', Number 2015]]\<rparr>) \<and>
   policy_overlay contains_literal overlay_country_df 2015 ''Germany'' =
     Inr (Some \<lparr>columns = [''policy_name'', ''implementation_year'', ''Country''],
                rows = [[Text ''A'', Number 2015, Text ''Germany''],
                        [Text ''D'', Number 2015, Text ''GERMANY''],
                        [Text ''F'', Number 2015, Text ''East Germany''],
                        [Text ''G'', Number 2015, Text ''Germany''],
                        [Text ''H'', Number 2015, Text ''Germany'']]\<rparr>)"
proof
  define ydf where "ydf = overlay_df\<lparr>rows :=
      filter (\<lambda>r. cell_at Missing r 1 = Number (of_int 2015)) (rows overlay_df)\<rparr>"
  have d: "distinct (columns overlay_df)" by (simp add: overlay_df_def)
  have i: "index_of (columns overlay_df) ''implementation_year'' = Some 1"
    by (simp add: overlay_df_def)
  have n: "\<not> frame_empty overlay_df \<and> ''Country'' \<notin> set (columns overlay_df)"
    by (simp add: overlay_df_def frame_empty_def)
  have v: "overlay_df\<lparr>rows := take 5 (rows ydf)\<rparr> =
      \<lparr>columns = [''policy_name'', ''implementation_year''],
       rows = [[Text ''A'', Number 2015], [Text ''C'', Number 2015],
               [Text ''E'', Number 2015], [Text ''F'', Number 2015],
               [Text ''G'', Number 2015]]\<rparr>"
    unfolding ydf_def by code_simp
  note t = C6_matched_policies[where policy_df=overlay_df and i=1 and y=2015 and ydf=ydf
      and str_contains=contains_literal and country="''Germany''", OF d i ydf_def]
  from t[THEN conjunct2, THEN conjunct2, THEN conjunct1] n
  show "policy_overlay contains_literal overlay_df 2015 ''Germany'' =
     Inr (Some \<lparr>columns = [''policy_name'', ''implementation_year''],
                rows = [[Text ''A'', Number 2015], [Text ''C'', Number 2015],
                        [Text ''E'', Number 2015], [Text ''F'', Number 2015],
                        [Text ''G'', Number 2015]]\<rparr>)"
    unfolding v by blast
next
  define ydf where "ydf = overlay_country_df\<lparr>rows :=
      filter (\<lambda>r. cell_at Missing r 1 = Number (of_int 2015)) (rows overlay_country_df)\<rparr>"
  have d: "distinct (columns overlay_country_df)" by (simp add: overlay_country_df_def)
  have i: "index_of (columns overlay_country_df) ''implementation_year'' = Some 1"
    by (simp add: overlay_country_df_def)
  have n: "\<not> frame_empty overlay_country_df \<and>
      index_of (columns overlay_country_df) ''Country'' = Some 2 \<and>
      contains_literal ''Germany'' (map (\<lambda>r. cell_at Missing r 2) (rows ydf)) =
        Inr [True, False, True, False, True, True, True, True, True]"
    unfolding ydf_def by code_simp
  have v: "overlay_country_df\<lparr>rows := take 5 (map fst (filter snd (zip (rows ydf)
             [True, False, True, False, True, True, True, True, True])))\<rparr> =
      \<lparr>columns = [''policy_name'', ''implementation_year'', ''Country''],
                rows = [[Text ''A'', Number 2015, Text ''Germany''],
                        [Text ''D'', Number 2015, Text ''GERMANY''],
                        [Text ''F'', Number 2015, Text ''East Germany''],
                        [Text ''G'', Number 2015, Text ''Germany''],
                        [Text ''H'', Number 2015, Text ''Germany'']]\<rparr>"
    unfolding ydf_def by code_simp
  note t = C6_matched_policies[where policy_df=overlay_country_df and i=1 and y=2015
      and ydf=ydf and str_contains=contains_literal and country="''Germany''", OF d i ydf_def]
  from t[THEN conjunct2, THEN conjunct2, THEN conjunct2, THEN conjunct1, rule_format, OF n]
  show "policy_overlay contains_literal overlay_country_df 2015 ''Germany'' =
     Inr (Some \<lparr>columns = [''policy_name'', ''implementation_year'', ''Country''],
                rows = [[Text ''A'', Number 2015, Text ''Germany''],
                        [Text ''D'', Number 2015, Text ''GERMANY''],
                        [Text ''F'', Number 2015, Text ''East Germany''],
                        [Text ''G'', Number 2015, Text ''Germany''],
                        [Text ''H'', Number 2015, Text ''Germany'']]\<rparr>)"
    unfolding v .
qed

end
